theory Spec2Isabelle
  imports Complex_Main "HOL-Library.Word" "HOL-Library.Char_ord" "HOL-Library.List_Lexorder"
    "HOL-Library.Log_Nat" "HOL-Library.Multiset"
begin

unbundle bit_operations_syntax

section \<open>JavaScript values shared by the modules\<close>

text \<open>
  Exceptions of the source are values: every \<open>throw\<close> is a branch that returns
  \<open>Inl\<close> of one of these. The payload is the exception's \<open>message\<close>.
\<close>

datatype js_error = Error string | RangeError string | TypeError string

fun message :: "js_error \<Rightarrow> string" where
  "message (Error m) = m"
| "message (RangeError m) = m"
| "message (TypeError m) = m"

text \<open>Decimal and hexadecimal rendering of integers (\<open>toString()\<close>, \<open>toString(16)\<close>).\<close>

definition digit_char :: "nat \<Rightarrow> char" where
  "digit_char d = ''0123456789abcdef'' ! d"

function digits_of :: "int \<Rightarrow> int \<Rightarrow> string" where
  "digits_of radix n =
     (if radix < 2 \<or> n < radix then [digit_char (nat n)]
      else digits_of radix (n div radix) @ [digit_char (nat (n mod radix))])"
  by pat_completeness auto
termination
proof (relation "measure (\<lambda>(radix, n). nat n)")
  show "wf (measure (\<lambda>(radix, n). nat n))"
    by simp
next
  fix radix n :: int
  assume "\<not> (radix < 2 \<or> n < radix)"
  then have "2 \<le> radix" and "radix \<le> n"
    by simp_all
  then have "n div radix < n"
    by (simp add: int_div_less_self)
  with \<open>2 \<le> radix\<close> \<open>radix \<le> n\<close> show "((radix, n div radix), (radix, n)) \<in> measure (\<lambda>(radix, n). nat n)"
    by simp
qed

declare digits_of.simps [simp del]

definition int_toString :: "int \<Rightarrow> string" where
  "int_toString i = (if i < 0 then CHR ''-'' # digits_of 10 (- i) else digits_of 10 i)"

section \<open>Strings, primitive values and numbers\<close>

text \<open>
  A string stands for the JavaScript string of the same ASCII characters (\<open>is_ascii\<close>);
  a string with a character above 127 stands for no JavaScript string. On ASCII strings
  \<open>toUpperCase\<close> and \<open>toLowerCase\<close> are the source's: outside them JavaScript maps
  further letters (the long s to \<open>S\<close>), so a statement that depends on the letter case of
  an arbitrary string assumes \<open>is_ascii\<close> of it.
\<close>

definition is_ascii :: "string \<Rightarrow> bool" where
  "is_ascii s = list_all (\<lambda>c. of_char c < (128::nat)) s"

definition toUpper_char :: "char \<Rightarrow> char" where
  "toUpper_char c = (if CHR ''a'' \<le> c \<and> c \<le> CHR ''z'' then char_of (of_char c - (32::nat)) else c)"

definition toLower_char :: "char \<Rightarrow> char" where
  "toLower_char c = (if CHR ''A'' \<le> c \<and> c \<le> CHR ''Z'' then char_of (of_char c + (32::nat)) else c)"

definition toUpperCase :: "string \<Rightarrow> string" where
  "toUpperCase s = map toUpper_char s"

definition toLowerCase :: "string \<Rightarrow> string" where
  "toLowerCase s = map toLower_char s"

fun join :: "string \<Rightarrow> string list \<Rightarrow> string" where
  "join sep [] = []"
| "join sep [x] = x"
| "join sep (x # y # ys) = x @ sep @ join sep (y # ys)"

fun endsWith :: "string \<Rightarrow> string \<Rightarrow> bool" where
  "endsWith s suffix = (length suffix \<le> length s \<and> drop (length s - length suffix) s = suffix)"

text \<open>
  The primitive values the tools receive as arguments and read from the exchange's JSON
  bodies. Numbers of this type are the integer-valued ones (timestamps, windows, block
  numbers); \<open>jsnum\<close> below is the result of parsing an amount.
\<close>

datatype jsval = JUndefined | JNull | JBool bool | JNum int | JStr string

fun truthy :: "jsval \<Rightarrow> bool" where
  "truthy JUndefined = False"
| "truthy JNull = False"
| "truthy (JBool b) = b"
| "truthy (JNum n) = (n \<noteq> 0)"
| "truthy (JStr s) = (s \<noteq> [])"

text \<open>
  \<open>String(v)\<close>. A number \<open>JNum n\<close> stands for the JavaScript number \<open>n\<close> when
  \<open>\<bar>n\<bar> \<le> 2 ^ 53\<close>, where every integer is a double and is printed with all its decimal
  digits; above that bound JavaScript prints the shortest digits that read back as the
  same double, and the statements below stay within the bound.
\<close>

fun js_String :: "jsval \<Rightarrow> string" where
  "js_String JUndefined = ''undefined''"
| "js_String JNull = ''null''"
| "js_String (JBool b) = (if b then ''true'' else ''false'')"
| "js_String (JNum n) = int_toString n"
| "js_String (JStr s) = s"

text \<open>\<open>a || b\<close> on primitive values.\<close>

definition js_or :: "jsval \<Rightarrow> jsval \<Rightarrow> jsval" where
  "js_or a b = (if truthy a then a else b)"

text \<open>
  An object whose properties are primitive: the property list in insertion order, the
  keys distinct. \<open>obj_set\<close> is an assignment \<open>o[k] = v\<close>: it replaces the value of an
  existing key in place and appends a new key. \<open>Object_keys\<close> lists the keys in the
  order of the list.
\<close>

type_synonym obj = "(string \<times> jsval) list"

definition obj_get :: "obj \<Rightarrow> string \<Rightarrow> jsval" where
  "obj_get ob k = (case map_of ob k of None \<Rightarrow> JUndefined | Some v \<Rightarrow> v)"

fun obj_set :: "obj \<Rightarrow> string \<Rightarrow> jsval \<Rightarrow> obj" where
  "obj_set [] k v = [(k, v)]"
| "obj_set ((k', v') # ps) k v = (if k' = k then (k, v) # ps else (k', v') # obj_set ps k v)"

definition Object_keys :: "obj \<Rightarrow> string list" where
  "Object_keys ob = map fst ob"

text \<open>
  Results of the tools are nested: a value, an array or an object of results.
\<close>

datatype json = V jsval | Arr "json list" | Obj "(string \<times> json) list"

abbreviation jstr :: "string \<Rightarrow> json" where
  "jstr s \<equiv> V (JStr s)"

abbreviation jbool :: "bool \<Rightarrow> json" where
  "jbool b \<equiv> V (JBool b)"

abbreviation jnum :: "int \<Rightarrow> json" where
  "jnum n \<equiv> V (JNum n)"

abbreviation jundefined :: json where
  "jundefined \<equiv> V JUndefined"

definition of_obj :: "obj \<Rightarrow> json" where
  "of_obj ob = Obj (map (\<lambda>(k, v). (k, V v)) ob)"

text \<open>\<open>x.k\<close>: the property or \<open>undefined\<close>; on \<open>undefined\<close> and \<open>null\<close> a TypeError.\<close>

definition field :: "json \<Rightarrow> string \<Rightarrow> json" where
  "field x k = (case x of Obj kvs \<Rightarrow> (case map_of kvs k of None \<Rightarrow> jundefined | Some v \<Rightarrow> v)
                | _ \<Rightarrow> jundefined)"

definition getprop :: "json \<Rightarrow> string \<Rightarrow> js_error + json" where
  "getprop x k =
     (if x = V JUndefined \<or> x = V JNull
      then Inl (TypeError (''Cannot read properties of '' @ (if x = V JNull then ''null'' else ''undefined'')))
      else Inr (field x k))"

fun json_truthy :: "json \<Rightarrow> bool" where
  "json_truthy (V v) = truthy v"
| "json_truthy (Arr xs) = True"
| "json_truthy (Obj kvs) = True"

fun json_String :: "json \<Rightarrow> string" where
  "json_String (V v) = js_String v"
| "json_String (Arr xs) =
     join '','' (map (\<lambda>x. if x = V JUndefined \<or> x = V JNull then [] else json_String x) xs)"
| "json_String (Obj kvs) = ''[object Object]''"

text \<open>An object literal with spread members: later members overwrite earlier ones.\<close>

fun json_set :: "(string \<times> json) list \<Rightarrow> string \<Rightarrow> json \<Rightarrow> (string \<times> json) list" where
  "json_set [] k v = [(k, v)]"
| "json_set ((k', v') # ps) k v = (if k' = k then (k, v) # ps else (k', v') # json_set ps k v)"

definition spread :: "(string \<times> json) list \<Rightarrow> json \<Rightarrow> (string \<times> json) list" where
  "spread kvs x = (case x of Obj more \<Rightarrow> foldl (\<lambda>acc (k, v). json_set acc k v) kvs more | _ \<Rightarrow> kvs)"

subsection \<open>Numbers: \<open>parseFloat\<close>\<close>

text \<open>
  A parsed amount is a double: not-a-number, an infinity, or a finite value, held as the
  rational it denotes. \<open>to_double\<close> rounds a rational to the nearest double (53-bit
  significand, ties to even, subnormals below \<open>2^-1022\<close>, infinity from \<open>2^1024\<close>).
\<close>

datatype jsnum = NaN | Fin rat | PosInf | NegInf

definition pow2 :: "int \<Rightarrow> rat" where
  "pow2 e = (if 0 \<le> e then 2 ^ nat e else 1 / 2 ^ nat (- e))"

definition pow10 :: "int \<Rightarrow> rat" where
  "pow10 e = (if 0 \<le> e then 10 ^ nat e else 1 / 10 ^ nat (- e))"

text \<open>\<open>scale2 p q s\<close> is the fraction \<open>(p / q) / 2^s\<close> as numerator and denominator.\<close>

definition scale2 :: "int \<Rightarrow> int \<Rightarrow> int \<Rightarrow> int \<times> int" where
  "scale2 p q s = (if 0 \<le> s then (p, q * 2 ^ nat s) else (p * 2 ^ nat (- s), q))"

text \<open>For positive \<open>p\<close> and \<open>q\<close>: the \<open>e\<close> with \<open>2^e \<le> p / q < 2^(e+1)\<close>.\<close>

definition floor_log2 :: "int \<Rightarrow> int \<Rightarrow> int" where
  "floor_log2 p q = (let e0 = bitlen p - bitlen q; (n, d) = scale2 p q e0
                     in if d \<le> n then e0 else e0 - 1)"

definition round_half_even :: "int \<Rightarrow> int \<Rightarrow> int" where
  "round_half_even n d =
     (let f = n div d; r = n mod d
      in if 2 * r < d then f else if d < 2 * r then f + 1 else if even f then f else f + 1)"

definition to_double :: "rat \<Rightarrow> jsnum" where
  "to_double x =
     (if x = 0 then Fin 0
      else let (p, q) = quotient_of \<bar>x\<bar>;
               e = max (floor_log2 p q) (- 1022);
               inf = (if x < 0 then NegInf else PosInf)
           in if 1024 \<le> e then inf
              else let (n, d) = scale2 p q (e - 52);
                       m = round_half_even n d
                   in if e = 1023 \<and> m = 2 ^ 53 then inf
                      else Fin (if x < 0 then - (of_int m * pow2 (e - 52)) else of_int m * pow2 (e - 52)))"

fun num_neg :: "jsnum \<Rightarrow> jsnum" where
  "num_neg NaN = NaN"
| "num_neg (Fin x) = Fin (- x)"
| "num_neg PosInf = NegInf"
| "num_neg NegInf = PosInf"

fun isNaN :: "jsnum \<Rightarrow> bool" where
  "isNaN NaN = True"
| "isNaN _ = False"

text \<open>\<open>a <= b\<close> and \<open>a < b\<close> on numbers: false when either side is not a number.\<close>

fun num_le :: "jsnum \<Rightarrow> jsnum \<Rightarrow> bool" where
  "num_le NaN _ = False"
| "num_le _ NaN = False"
| "num_le NegInf _ = True"
| "num_le _ PosInf = True"
| "num_le (Fin a) (Fin b) = (a \<le> b)"
| "num_le _ _ = False"

fun num_lt :: "jsnum \<Rightarrow> jsnum \<Rightarrow> bool" where
  "num_lt NaN _ = False"
| "num_lt _ NaN = False"
| "num_lt PosInf _ = False"
| "num_lt _ NegInf = False"
| "num_lt (Fin a) (Fin b) = (a < b)"
| "num_lt _ _ = True"

definition is_digit :: "char \<Rightarrow> bool" where
  "is_digit c = (CHR ''0'' \<le> c \<and> c \<le> CHR ''9'')"

definition digit_val :: "char \<Rightarrow> int" where
  "digit_val c = int (of_char c) - 48"

definition digits_value :: "string \<Rightarrow> int" where
  "digits_value ds = foldl (\<lambda>a c. 10 * a + digit_val c) 0 ds"

text \<open>The white space \<open>parseFloat\<close> skips, among the ASCII characters.\<close>

definition is_StrWhiteSpaceChar :: "char \<Rightarrow> bool" where
  "is_StrWhiteSpaceChar c = (of_char c \<in> {9, 10, 11, 12, 13, 32 :: nat})"

text \<open>The exponent part after the mantissa: \<open>e\<close> or \<open>E\<close>, a sign, at least one digit.\<close>

definition ExponentPart :: "string \<Rightarrow> int" where
  "ExponentPart s =
     (case s of
        [] \<Rightarrow> 0
      | c # r \<Rightarrow>
          if c = CHR ''e'' \<or> c = CHR ''E''
          then (case r of
                  [] \<Rightarrow> 0
                | d # r' \<Rightarrow>
                    if d = CHR ''-'' then (if takeWhile is_digit r' = [] then 0
                                           else - digits_value (takeWhile is_digit r'))
                    else if d = CHR ''+'' then digits_value (takeWhile is_digit r')
                    else digits_value (takeWhile is_digit r))
          else 0)"

text \<open>The longest prefix that is an unsigned decimal literal, as a double.\<close>

definition StrUnsignedDecimalLiteral :: "string \<Rightarrow> jsnum" where
  "StrUnsignedDecimalLiteral s =
     (if take 8 s = ''Infinity'' then PosInf
      else let ip = takeWhile is_digit s;
               r1 = dropWhile is_digit s;
               fp = (case r1 of [] \<Rightarrow> [] | c # t \<Rightarrow> if c = CHR ''.'' then takeWhile is_digit t else []);
               r2 = (case r1 of [] \<Rightarrow> [] | c # t \<Rightarrow> if c = CHR ''.'' then dropWhile is_digit t else r1)
           in if ip = [] \<and> fp = [] then NaN
              else to_double (of_int (digits_value (ip @ fp)) * pow10 (ExponentPart r2 - int (length fp))))"

definition parseFloat :: "string \<Rightarrow> jsnum" where
  "parseFloat s =
     (case dropWhile is_StrWhiteSpaceChar s of
        [] \<Rightarrow> NaN
      | c # r \<Rightarrow>
          if c = CHR ''-'' then num_neg (StrUnsignedDecimalLiteral r)
          else if c = CHR ''+'' then StrUnsignedDecimalLiteral r
          else StrUnsignedDecimalLiteral (c # r))"

section \<open>solana-deposit-builder.js: the deposit instruction payload\<close>

text \<open>
  A Node \<open>Buffer\<close> is a list of bytes. \<open>writeBigUInt64LE\<close> and \<open>readBigUInt64LE\<close>
  are Node's: the value is a BigInt (an unbounded \<open>int\<close> here), the write throws a
  RangeError when the value is not in \<open>[0, 2^64)\<close> or the eight bytes do not fit.
\<close>

type_synonym buffer = "8 word list"

fun le_bytes :: "nat \<Rightarrow> int \<Rightarrow> buffer" where
  "le_bytes 0 v = []"
| "le_bytes (Suc n) v = word_of_int v # le_bytes n (v div 256)"

fun le_value :: "buffer \<Rightarrow> int" where
  "le_value [] = 0"
| "le_value (b # bs) = uint b + 256 * le_value bs"

definition Buffer_alloc :: "nat \<Rightarrow> buffer" where
  "Buffer_alloc n = replicate n 0"

definition writeUInt8 :: "int \<Rightarrow> nat \<Rightarrow> buffer \<Rightarrow> js_error + buffer" where
  "writeUInt8 v offset buf =
     (if v < 0 \<or> 255 < v then Inl (RangeError ''ERR_OUT_OF_RANGE'')
      else if length buf < offset + 1 then Inl (RangeError ''ERR_OUT_OF_RANGE'')
      else Inr (buf[offset := word_of_int v]))"

definition writeBigUInt64LE :: "int \<Rightarrow> nat \<Rightarrow> buffer \<Rightarrow> js_error + buffer" where
  "writeBigUInt64LE v offset buf =
     (if v < 0 \<or> 2 ^ 64 \<le> v then Inl (RangeError ''ERR_OUT_OF_RANGE'')
      else if length buf < offset + 8 then Inl (RangeError ''ERR_OUT_OF_RANGE'')
      else Inr (take offset buf @ le_bytes 8 v @ drop (offset + 8) buf))"

definition readUInt8 :: "buffer \<Rightarrow> nat \<Rightarrow> js_error + int" where
  "readUInt8 buf offset =
     (if length buf < offset + 1 then Inl (RangeError ''ERR_OUT_OF_RANGE'')
      else Inr (uint (buf ! offset)))"

definition readBigUInt64LE :: "buffer \<Rightarrow> nat \<Rightarrow> js_error + int" where
  "readBigUInt64LE buf offset =
     (if length buf < offset + 8 then Inl (RangeError ''ERR_OUT_OF_RANGE'')
      else Inr (le_value (take 8 (drop offset buf))))"

definition BROKER_ID :: int where
  "BROKER_ID = 56357235818057297"

definition DEPOSIT_DISCRIMINATOR :: int where
  "DEPOSIT_DISCRIMINATOR = 0x6c"

text \<open>
  \<open>buildDepositInstructionData\<close> of the source reads the broker from the module
  constant \<open>BROKER_ID\<close>; \<open>buildDepositInstructionData_broker\<close> is the same body with
  that constant as its first argument. \<open>amountLamports\<close> is an integer-valued number
  (\<open>BigInt(x)\<close> of any other number throws and is outside this model).
\<close>

definition buildDepositInstructionData_broker :: "int \<Rightarrow> int \<Rightarrow> js_error + buffer" where
  "buildDepositInstructionData_broker broker amountLamports =
     (case writeUInt8 DEPOSIT_DISCRIMINATOR 0 (Buffer_alloc 16) of
        Inl e \<Rightarrow> Inl e
      | Inr d1 \<Rightarrow>
          (let brokerWithDiscriminator = (push_bit 8 broker) OR DEPOSIT_DISCRIMINATOR
           in case writeBigUInt64LE brokerWithDiscriminator 0 d1 of
                Inl e \<Rightarrow> Inl e
              | Inr d2 \<Rightarrow> writeBigUInt64LE amountLamports 8 d2))"

definition buildDepositInstructionData :: "int \<Rightarrow> js_error + buffer" where
  "buildDepositInstructionData amountLamports =
     buildDepositInstructionData_broker BROKER_ID amountLamports"

text \<open>
  \<open>decodeInstructionData\<close> returns strings; \<open>decodeInstructionWords\<close> is its first
  half, the three numbers it reads before rendering them. The field \<open>amountSOL\<close>
  (a floating-point quotient) is left out of the record.
\<close>

definition decodeInstructionWords :: "buffer \<Rightarrow> js_error + (int \<times> int \<times> int)" where
  "decodeInstructionWords data =
     (if length data \<noteq> 16 then Inl (Error ''Invalid data length'')
      else case readUInt8 data 0 of
        Inl e \<Rightarrow> Inl e
      | Inr discriminator \<Rightarrow>
          (case readBigUInt64LE data 0 of
             Inl e \<Rightarrow> Inl e
           | Inr fullValue \<Rightarrow>
               (let broker = drop_bit 8 fullValue
                in case readBigUInt64LE data 8 of
                     Inl e \<Rightarrow> Inl e
                   | Inr amountLamports \<Rightarrow> Inr (discriminator, broker, amountLamports))))"

record decoded_instruction =
  discriminator :: string
  broker :: string
  amountLamports :: string
  raw :: string

definition byte_hex :: "8 word \<Rightarrow> string" where
  "byte_hex b = [digit_char (unat b div 16), digit_char (unat b mod 16)]"

definition decodeInstructionData :: "buffer \<Rightarrow> js_error + decoded_instruction" where
  "decodeInstructionData data =
     (case decodeInstructionWords data of
        Inl e \<Rightarrow> Inl e
      | Inr (d, b, a) \<Rightarrow>
          Inr \<lparr> discriminator = ''0x'' @ digits_of 16 d,
                broker = int_toString b,
                amountLamports = int_toString a,
                raw = concat (map byte_hex data) \<rparr>)"

section \<open>utils.js\<close>

subsection \<open>Error handling and validation\<close>

text \<open>
  \<open>handleError\<close> turns a caught exception into a result object. Its \<open>timestamp\<close>
  field, like the \<open>timestamp\<close> field of every other result (an ISO rendering of the wall
  clock), is left out of the model.
\<close>

definition handleError :: "js_error \<Rightarrow> json" where
  "handleError error =
     Obj [(''success'', jbool False), (''isError'', jbool True), (''error'', jstr (message error))]"

definition validateTradingSymbol :: "string \<Rightarrow> js_error + bool" where
  "validateTradingSymbol symbol =
     (if symbol = [] then Inl (Error ''Symbol must be a non-empty string'')
      else let upperSymbol = toUpperCase symbol
           in if \<not> (6 \<le> length upperSymbol \<and> length upperSymbol \<le> 12
                    \<and> (\<forall>c \<in> set upperSymbol. CHR ''A'' \<le> c \<and> c \<le> CHR ''Z''))
              then Inl (Error ''Invalid trading symbol format. Expected format: BTCUSDT (6-12 uppercase letters)'')
              else let quoteAssets = [''USDT'', ''USDC'', ''BTC'', ''ETH'', ''BNB'', ''SOL'', ''BUSD''];
                       hasValidQuote = (\<exists>quote \<in> set quoteAssets. endsWith upperSymbol quote)
                   in if \<not> hasValidQuote
                      then Inl (Error (''Invalid trading symbol. Symbol must end with one of: ''
                                        @ join '', '' quoteAssets))
                      else Inr True)"

text \<open>
  \<open>typeof amount === 'string' ? parseFloat(amount) : amount\<close>, read as a number by
  \<open>isNaN\<close> and \<open><=\<close>.
\<close>

fun numAmount_of :: "jsval \<Rightarrow> jsnum" where
  "numAmount_of (JStr s) = parseFloat s"
| "numAmount_of JUndefined = NaN"
| "numAmount_of JNull = Fin 0"
| "numAmount_of (JBool b) = Fin (if b then 1 else 0)"
| "numAmount_of (JNum n) = Fin (of_int n)"

definition validateAmount :: "jsval \<Rightarrow> string \<Rightarrow> js_error + bool" where
  "validateAmount amount fieldName =
     (let numAmount = numAmount_of amount
      in if isNaN numAmount \<or> num_le numAmount (Fin 0)
         then Inl (Error (fieldName @ '' must be a positive number''))
         else Inr True)"

definition validateNetwork :: "string \<Rightarrow> string list option \<Rightarrow> js_error + bool" where
  "validateNetwork network allowedNetworks =
     (let validNetworks = (case allowedNetworks of
                             None \<Rightarrow> [''ethereum'', ''arbitrum'', ''bnb'', ''solana'']
                           | Some a \<Rightarrow> a);
          networkLower = (if network \<noteq> [] then toLowerCase network else [])
      in if networkLower \<notin> set validNetworks
         then Inl (Error (''Invalid network. Must be one of: '' @ join '', '' validNetworks))
         else Inr True)"

subsection \<open>Canonical query string and request signature\<close>

definition uriUnreserved :: "char \<Rightarrow> bool" where
  "uriUnreserved c =
     ((CHR ''A'' \<le> c \<and> c \<le> CHR ''Z'') \<or> (CHR ''a'' \<le> c \<and> c \<le> CHR ''z'')
      \<or> (CHR ''0'' \<le> c \<and> c \<le> CHR ''9'')
      \<or> c \<in> set ''-_.!~*()'' \<or> c = CHR 0x27)"

definition percent_byte :: "char \<Rightarrow> string" where
  "percent_byte c =
     [CHR ''%'', ''0123456789ABCDEF'' ! (of_char c div 16), ''0123456789ABCDEF'' ! (of_char c mod 16)]"

definition encodeURIComponent :: "string \<Rightarrow> string" where
  "encodeURIComponent s = concat (map (\<lambda>c. if uriUnreserved c then [c] else percent_byte c) s)"

text \<open>
  \<open>Object.keys(params).sort()\<close> orders the keys as strings, whatever order the object
  lists them in.
\<close>

definition buildQueryString :: "obj \<Rightarrow> string" where
  "buildQueryString params =
     join ''&''
       (map (\<lambda>key. encodeURIComponent key @ ''='' @ encodeURIComponent (js_String (obj_get params key)))
            (sort (Object_keys params)))"

text \<open>
  \<open>crypto.createHmac('sha256', secret).update(queryString).digest('hex')\<close>: the hash
  function is the library's and is the first argument here.
\<close>

definition generateHmacSignature :: "(string \<Rightarrow> string \<Rightarrow> string) \<Rightarrow> string \<Rightarrow> string \<Rightarrow> string" where
  "generateHmacSignature hmac_sha256_hex queryString secret = hmac_sha256_hex secret queryString"

subsection \<open>Wallet helpers\<close>

text \<open>
  \<open>getWalletPrivateKey\<close> returns or throws; the second component lists the phrases it
  handed to \<open>ethers.Wallet.fromPhrase\<close> (the first argument), in order. A key passed
  by the caller is \<open>null\<close> (\<open>None\<close>) or a string, and the empty string is falsy.
\<close>

definition getWalletPrivateKey ::
  "(string \<Rightarrow> js_error + string) \<Rightarrow> string option \<Rightarrow> string \<Rightarrow> string \<Rightarrow> string
     \<Rightarrow> (js_error + string) \<times> string list" where
  "getWalletPrivateKey fromPhrase userPrivateKey configPrivateKey configMnemonic network =
     (let networkInfo = (if network \<noteq> [] then '' for '' @ network else []);
          fromConfiguration =
            (if configPrivateKey \<noteq> []
             then (Inr configPrivateKey, [])
             else if configMnemonic \<noteq> []
             then (case fromPhrase configMnemonic of
                     Inr privateKey \<Rightarrow> (Inr privateKey, [configMnemonic])
                   | Inl error \<Rightarrow>
                       (Inl (Error (''Failed to derive private key from mnemonic: '' @ message error)),
                        [configMnemonic]))
             else (Inl (Error (''No wallet credentials available'' @ networkInfo
                       @ ''. Please provide privateKey parameter or set network-specific environment variables (e.g., ETHEREUM_WALLET_PRIVATE_KEY or ETHEREUM_WALLET_MNEMONIC)'')),
                   []))
      in case userPrivateKey of
           None \<Rightarrow> fromConfiguration
         | Some key \<Rightarrow> if key \<noteq> [] then (Inr key, []) else fromConfiguration)"

text \<open>\<open>process.env\<close> is a partial map from names to strings.\<close>

type_synonym environ = "string \<Rightarrow> string option"

definition env_or_empty :: "environ \<Rightarrow> string \<Rightarrow> string" where
  "env_or_empty penv name = (case penv name of None \<Rightarrow> [] | Some v \<Rightarrow> v)"

record wallet_env =
  we_privateKey :: string
  we_mnemonic :: string
  we_rpcUrl :: string

definition getNetworkWalletEnv :: "environ \<Rightarrow> string \<Rightarrow> wallet_env" where
  "getNetworkWalletEnv penv network =
     (let networkUpper = toUpperCase network
      in \<lparr> we_privateKey = env_or_empty penv (networkUpper @ ''_WALLET_PRIVATE_KEY''),
            we_mnemonic = env_or_empty penv (networkUpper @ ''_WALLET_MNEMONIC''),
            we_rpcUrl = env_or_empty penv (networkUpper @ ''_RPC_URL'') \<rparr>)"

definition getNetworkRpcUrl :: "environ \<Rightarrow> string \<Rightarrow> js_error + string" where
  "getNetworkRpcUrl penv network =
     (let networkUpper = toUpperCase network;
          rpcUrl = env_or_empty penv (networkUpper @ ''_RPC_URL'')
      in if rpcUrl = []
         then Inl (Error (''RPC URL not configured for '' @ network @ ''. Please set '' @ networkUpper
                          @ ''_RPC_URL in environment variables''))
         else Inr rpcUrl)"

definition getNetworkPrivateKey ::
  "(string \<Rightarrow> js_error + string) \<Rightarrow> environ \<Rightarrow> string \<Rightarrow> string option \<Rightarrow> js_error + string" where
  "getNetworkPrivateKey fromPhrase penv network userPrivateKey =
     (let networkCreds = getNetworkWalletEnv penv network
      in fst (getWalletPrivateKey fromPhrase userPrivateKey (we_privateKey networkCreds)
                (we_mnemonic networkCreds) network))"

section \<open>The outside world\<close>

text \<open>
  Everything the tools exchange with the outside is an event of a trace, in the order it
  happens: a reading of the clock (\<open>Date.now()\<close>), an HTTP request (\<open>axios\<close>), a
  call, a transaction or a wait for a receipt on an EVM node, a request to the Solana
  node, a typed-data signature. The answer to an event is given by the environment as a
  function of the trace before it, so that an answer may depend on everything that
  happened earlier. Console output is not modelled.
\<close>

record http_config =
  cfg_method :: string
  cfg_url :: string
  cfg_headers :: "(string \<times> string) list"
  cfg_data :: "string option"

text \<open>
  What \<open>axios\<close> does with a request: a response (\<open>data\<close>, \<open>headers\<close>), a rejection
  that carries a response (\<open>error.response.status\<close>, \<open>error.response.data\<close>,
  \<open>error.message\<close>), or a rejection without one (\<open>error.message\<close>). A body is an
  object of primitive values, or \<open>None\<close> when there is none.
\<close>

datatype http_outcome =
    Response "obj option" obj
  | ErrorResponse int "obj option" string
  | NoResponse string

datatype evm_call =
    Decimals string
  | Allowance string string string
  | Approve string string int int
  | Deposit string string int int
  | DepositNative string int int

record typed_domain =
  dom_name :: string
  dom_version :: string
  dom_chainId :: "int option"
  dom_verifyingContract :: string

record withdraw_action =
  act_type :: string
  act_destination :: string
  act_destination_Chain :: string
  act_token :: string
  act_amount :: string
  act_fee :: string
  act_nonce :: int
  act_aster_chain :: string

record account_meta =
  am_pubkey :: string
  am_isSigner :: bool
  am_isWritable :: bool

record transaction_instruction =
  ins_keys :: "account_meta list"
  ins_programId :: string
  ins_data :: buffer

record solana_transaction =
  stx_instructions :: "transaction_instruction list"
  stx_recentBlockhash :: string
  stx_feePayer :: string
  stx_signers :: "string list"

datatype solana_call =
    GetLatestBlockhash
  | SendAndConfirmTransaction solana_transaction
  | GetTransaction string

datatype event =
    DateNow
  | Http http_config
  | EthCall string evm_call
  | EthSend string string evm_call
  | EthWait string string "int option"
  | SolanaRpc string solana_call
  | SignTypedData string typed_domain withdraw_action

fun is_network_io :: "event \<Rightarrow> bool" where
  "is_network_io DateNow = False"
| "is_network_io (SignTypedData k d v) = False"
| "is_network_io _ = True"

fun is_transaction :: "event \<Rightarrow> bool" where
  "is_transaction (EthSend rpcUrl key c) = True"
| "is_transaction (SolanaRpc rpcUrl (SendAndConfirmTransaction t)) = True"
| "is_transaction _ = False"

record token_config =
  tc_symbol :: string
  tc_name :: string
  tc_address :: "string option"
  tc_decimals :: int
  tc_type :: string
  tc_network :: string

text \<open>
  The environment: \<open>process.env\<close>, the token table of tokens-config.js, the answers of
  the clock and of the network, and the library functions of ethers, @solana/web3.js,
  bs58 and crypto that the tools call. A library function that throws returns \<open>Inl\<close>.
  \<^item> \<open>Wallet_address key\<close> is \<open>new ethers.Wallet(key).address\<close>;
  \<^item> \<open>Keypair_publicKey key\<close> is
    \<open>Keypair.fromSecretKey(bs58.decode(key)).publicKey.toBase58()\<close>;
  \<^item> \<open>eth_call\<close> answers \<open>decimals()\<close> and \<open>allowance()\<close>, \<open>eth_send\<close> a
    transaction with its hash, \<open>eth_wait\<close> a wait with the block number of the receipt.
\<close>

record env =
  penv :: environ
  TOKENS :: "(string \<times> (string \<times> token_config) list) list"
  date_now :: "event list \<Rightarrow> int"
  axios :: "event list \<Rightarrow> http_config \<Rightarrow> http_outcome"
  hmac_sha256_hex :: "string \<Rightarrow> string \<Rightarrow> string"
  JSON_stringify :: "obj option \<Rightarrow> string"
  Wallet_fromPhrase :: "string \<Rightarrow> js_error + string"
  Wallet_address :: "string \<Rightarrow> js_error + string"
  getAddress :: "string \<Rightarrow> js_error + string"
  parseUnits :: "string \<Rightarrow> int \<Rightarrow> js_error + int"
  signTypedData :: "string \<Rightarrow> typed_domain \<Rightarrow> withdraw_action \<Rightarrow> js_error + string"
  eth_call :: "event list \<Rightarrow> string \<Rightarrow> evm_call \<Rightarrow> js_error + int"
  eth_send :: "event list \<Rightarrow> string \<Rightarrow> string \<Rightarrow> evm_call \<Rightarrow> js_error + string"
  eth_wait :: "event list \<Rightarrow> string \<Rightarrow> string \<Rightarrow> int option \<Rightarrow> js_error + int"
  Keypair_publicKey :: "string \<Rightarrow> js_error + string"
  findProgramAddress :: "string list \<Rightarrow> string \<Rightarrow> js_error + string"
  solana_getLatestBlockhash :: "event list \<Rightarrow> string \<Rightarrow> js_error + string"
  solana_sendAndConfirmTransaction :: "event list \<Rightarrow> string \<Rightarrow> solana_transaction \<Rightarrow> js_error + string"
  solana_getTransaction :: "event list \<Rightarrow> string \<Rightarrow> string \<Rightarrow> js_error + int option"

section \<open>tokens-config.js and deposit-contracts.js\<close>

definition getTokenConfig ::
  "(string \<times> (string \<times> token_config) list) list \<Rightarrow> string \<Rightarrow> string \<Rightarrow> token_config option" where
  "getTokenConfig tokens symbol network =
     (case map_of tokens (toLowerCase network) of
        None \<Rightarrow> None
      | Some networkTokens \<Rightarrow>
          (case map_of networkTokens (toUpperCase symbol) of
             None \<Rightarrow> None
           | Some token \<Rightarrow> Some (token\<lparr>tc_network := toLowerCase network\<rparr>)))"

record deposit_contract =
  dc_address :: string
  dc_chainId :: "int option"
  dc_treasuryAccount :: "string option"
  dc_networkName :: string
  dc_explorerUrl :: string

definition DEPOSIT_CONTRACTS :: "(string \<times> deposit_contract) list" where
  "DEPOSIT_CONTRACTS =
     [(''ethereum'', \<lparr> dc_address = ''0x604dd02d620633ae427888d41bfd15e38483736e'',
                       dc_chainId = Some 1, dc_treasuryAccount = None,
                       dc_networkName = ''Ethereum'', dc_explorerUrl = ''https://etherscan.io/tx/'' \<rparr>),
      (''arbitrum'', \<lparr> dc_address = ''0x9E36CB86a159d479cEd94Fa05036f235Ac40E1d5'',
                       dc_chainId = Some 42161, dc_treasuryAccount = None,
                       dc_networkName = ''Arbitrum One'', dc_explorerUrl = ''https://arbiscan.io/tx/'' \<rparr>),
      (''bnb'', \<lparr> dc_address = ''0x128463a60784c4d3f46c23af3f65ed859ba87974'',
                  dc_chainId = Some 56, dc_treasuryAccount = None,
                  dc_networkName = ''BNB Chain'', dc_explorerUrl = ''https://bscscan.com/tx/'' \<rparr>),
      (''solana'', \<lparr> dc_address = ''EhUtRgu9iEbZXXRpEvDj6n1wnQRjMi2SERDo3c6bmN2c'',
                     dc_chainId = None,
                     dc_treasuryAccount = Some ''5bXxj9Qa4hj15DHvzTgVy7z2VkEGNWFVQojfbUKAiGpE'',
                     dc_networkName = ''Solana'', dc_explorerUrl = ''https://solscan.io/tx/'' \<rparr>)]"

definition getDepositContract :: "string \<Rightarrow> js_error + deposit_contract" where
  "getDepositContract network =
     (case map_of DEPOSIT_CONTRACTS (toLowerCase network) of
        None \<Rightarrow> Inl (Error (''Deposit contract not configured for network: '' @ network))
      | Some contract \<Rightarrow>
          if dc_address contract = ''0x0000000000000000000000000000000000000000''
             \<or> dc_address contract = ''11111111111111111111111111111111''
          then Inl (Error (''Deposit contract address not configured for '' @ network
                           @ ''. Please add the real contract address in deposit-contracts.js''))
          else Inr contract)"

section \<open>utils.js: the request client and the typed-data signature\<close>

record api_options =
  opt_baseUrl :: string
  opt_endpoint :: string
  opt_method :: string
  opt_params :: obj
  opt_signed :: bool
  opt_apiKey :: string
  opt_apiSecret :: string
  opt_recvWindow :: jsval

text \<open>
  The result of a request: \<open>{success: true, data, headers}\<close> or
  \<open>{success: false, error}\<close>, the error an object.
\<close>

datatype api_result = ApiSuccess "obj option" obj | ApiFailure json

text \<open>
  The parameters a signed request sends: a clone of the caller's, with \<open>timestamp\<close> and
  \<open>recvWindow\<close> added where the caller's value is falsy. The clock is read only in the
  first case.
\<close>

definition requestParams_of :: "env \<Rightarrow> api_options \<Rightarrow> event list \<Rightarrow> obj \<times> event list" where
  "requestParams_of e options tr =
     (let requestParams = opt_params options
      in if opt_signed options
         then (let (p1, tr1) =
                     (if \<not> truthy (obj_get requestParams ''timestamp'')
                      then (obj_set requestParams ''timestamp'' (JNum (date_now e tr)), tr @ [DateNow])
                      else (requestParams, tr));
                   p2 = (if \<not> truthy (obj_get p1 ''recvWindow'')
                         then obj_set p1 ''recvWindow'' (opt_recvWindow options)
                         else p1)
               in (p2, tr1))
         else (requestParams, tr))"

definition request_config :: "env \<Rightarrow> api_options \<Rightarrow> obj \<Rightarrow> http_config" where
  "request_config e options requestParams =
     (let queryString = buildQueryString requestParams;
          signature = (if opt_signed options
                       then generateHmacSignature (hmac_sha256_hex e) queryString (opt_apiSecret options)
                       else []);
          method = opt_method options;
          headers = (if method = ''POST'' \<or> method = ''PUT''
                     then [(''Content-Type'', ''application/x-www-form-urlencoded'')] else [])
                    @ (if opt_apiKey options \<noteq> [] then [(''X-MBX-APIKEY'', opt_apiKey options)] else []);
          full = (if opt_signed options then queryString @ ''&signature='' @ signature else queryString);
          url = opt_baseUrl options @ opt_endpoint options
      in if method = ''GET'' \<or> method = ''DELETE''
         then \<lparr> cfg_method = method, cfg_url = url @ (if full \<noteq> [] then ''?'' @ full else []),
                cfg_headers = headers, cfg_data = None \<rparr>
         else if method = ''POST'' \<or> method = ''PUT''
         then \<lparr> cfg_method = method, cfg_url = url, cfg_headers = headers, cfg_data = Some full \<rparr>
         else \<lparr> cfg_method = method, cfg_url = url, cfg_headers = headers, cfg_data = None \<rparr>)"

text \<open>
  The \<open>catch\<close> block: an error that carries a response gives \<open>{code, message,
  httpStatus}\<close>, any other error \<open>{message, type: 'NetworkError'}\<close>.
\<close>

definition response_error :: "int \<Rightarrow> obj option \<Rightarrow> string \<Rightarrow> json" where
  "response_error status data msg =
     Obj [(''code'', V (case data of None \<Rightarrow> JNum status
                        | Some d \<Rightarrow> js_or (obj_get d ''code'') (JNum status))),
          (''message'', V (case data of None \<Rightarrow> JStr msg
                           | Some d \<Rightarrow> js_or (obj_get d ''msg'') (JStr msg))),
          (''httpStatus'', jnum status)]"

definition other_error :: "string \<Rightarrow> json" where
  "other_error msg = Obj [(''message'', jstr msg), (''type'', jstr ''NetworkError'')]"

definition makeApiRequest :: "env \<Rightarrow> api_options \<Rightarrow> event list \<Rightarrow> api_result \<times> event list" where
  "makeApiRequest e options tr =
     (if opt_signed options \<and> (opt_apiKey options = [] \<or> opt_apiSecret options = [])
      then (ApiFailure (other_error (message (Error
              ''API credentials not configured. API key and secret are required for signed requests''))),
            tr)
      else let (requestParams, tr1) = requestParams_of e options tr;
               config = request_config e options requestParams
           in (case axios e tr1 config of
                 Response data headers \<Rightarrow> ApiSuccess data headers
               | ErrorResponse status data msg \<Rightarrow> ApiFailure (response_error status data msg)
               | NoResponse msg \<Rightarrow> ApiFailure (other_error msg),
               tr1 @ [Http config]))"

text \<open>\<open>parseInt\<close> of a string: a sign, then decimal digits or \<open>0x\<close> and hexadecimal digits.\<close>

definition hex_val :: "char \<Rightarrow> int option" where
  "hex_val c =
     (if is_digit c then Some (int (of_char c) - 48)
      else if CHR ''a'' \<le> c \<and> c \<le> CHR ''f'' then Some (int (of_char c) - 87)
      else if CHR ''A'' \<le> c \<and> c \<le> CHR ''F'' then Some (int (of_char c) - 55)
      else None)"

definition parseInt :: "string \<Rightarrow> int option" where
  "parseInt s =
     (let t = dropWhile is_StrWhiteSpaceChar s;
          neg = (take 1 t = ''-'');
          u = (if take 1 t = ''-'' \<or> take 1 t = ''+'' then drop 1 t else t)
      in if take 2 u = ''0x'' \<or> take 2 u = ''0X''
         then (let ds = takeWhile (\<lambda>c. hex_val c \<noteq> None) (drop 2 u)
               in if ds = [] then None
                  else Some ((if neg then - 1 else 1)
                             * foldl (\<lambda>a c. 16 * a + (case hex_val c of Some d \<Rightarrow> d | None \<Rightarrow> 0)) 0 ds))
         else (let ds = takeWhile is_digit u
               in if ds = [] then None
                  else Some ((if neg then - 1 else 1) * digits_value ds)))"

record eip712_params =
  p_chainId :: string
  p_destination :: jsval
  p_receiver :: jsval
  p_token :: string
  p_amount :: string
  p_fee :: string
  p_nonce :: int

definition chainNames :: "(string \<times> string) list" where
  "chainNames = [(''1'', ''ETH''), (''56'', ''BSC''), (''42161'', ''Arbi'')]"

definition ZeroAddress :: string where
  "ZeroAddress = ''0x0000000000000000000000000000000000000000''"

text \<open>
  \<open>generateEIP712Signature\<close>: the wallet is built first, then the destination is
  normalised, then the typed data is signed. The signature is an event of the trace.
\<close>

definition generateEIP712Signature ::
  "env \<Rightarrow> eip712_params \<Rightarrow> string \<Rightarrow> event list \<Rightarrow> (js_error + string) \<times> event list" where
  "generateEIP712Signature e params privateKey tr =
     (case Wallet_address e privateKey of
        Inl err \<Rightarrow> (Inl err, tr)
      | Inr walletAddress \<Rightarrow>
          (let targetAddress = js_or (p_destination params) (p_receiver params)
           in case (case targetAddress of
                      JStr a \<Rightarrow> getAddress e (toLowerCase a)
                    | _ \<Rightarrow> Inl (TypeError ''targetAddress.toLowerCase is not a function'')) of
                Inl err \<Rightarrow> (Inl (Error (''Invalid destination address: '' @ js_String targetAddress)), tr)
              | Inr normalizedDestination \<Rightarrow>
                  (let domain = \<lparr> dom_name = ''Aster'', dom_version = ''1'',
                                  dom_chainId = parseInt (p_chainId params),
                                  dom_verifyingContract = ZeroAddress \<rparr>;
                       val = \<lparr> act_type = ''Withdraw'',
                               act_destination = normalizedDestination,
                               act_destination_Chain =
                                 (case map_of chainNames (p_chainId params) of
                                    Some n \<Rightarrow> n | None \<Rightarrow> ''ETH''),
                               act_token = p_token params,
                               act_amount = p_amount params,
                               act_fee = p_fee params,
                               act_nonce = p_nonce params,
                               act_aster_chain = ''Mainnet'' \<rparr>
                   in (signTypedData e privateKey domain val,
                       tr @ [SignTypedData privateKey domain val]))))"

section \<open>tools.js: the tools\<close>

text \<open>The fields of a \<open>ToolsAPI\<close> object that the tools read.\<close>

record tools_api =
  asterApiKey :: string
  asterApiSecret :: string
  asterBaseUrl :: string
  recvWindow :: jsval

definition asterApiRequest ::
  "env \<Rightarrow> tools_api \<Rightarrow> string \<Rightarrow> string \<Rightarrow> obj \<Rightarrow> bool \<Rightarrow> event list \<Rightarrow> api_result \<times> event list" where
  "asterApiRequest e this endpoint method params signed_request tr =
     makeApiRequest e
       \<lparr> opt_baseUrl = asterBaseUrl this, opt_endpoint = endpoint, opt_method = method,
         opt_params = params, opt_signed = signed_request, opt_apiKey = asterApiKey this,
         opt_apiSecret = asterApiSecret this, opt_recvWindow = recvWindow this \<rparr> tr"

text \<open>
  Every tool is a \<open>try\<close> block whose \<open>catch\<close> returns \<open>handleError(error)\<close>: the
  body returns a result or an exception, with the trace.
\<close>

definition catching :: "(js_error + json) \<times> event list \<Rightarrow> json \<times> event list" where
  "catching r = (case fst r of Inl error \<Rightarrow> handleError error | Inr result \<Rightarrow> result, snd r)"

definition failure :: "json \<Rightarrow> json" where
  "failure err = Obj [(''success'', jbool False), (''error'', err)]"

subsection \<open>marketBuy\<close>

definition marketBuy_body ::
  "env \<Rightarrow> tools_api \<Rightarrow> string \<Rightarrow> jsval \<Rightarrow> event list \<Rightarrow> (js_error + json) \<times> event list" where
  "marketBuy_body e this symbol quoteAmount tr =
     (case validateTradingSymbol symbol of
        Inl err \<Rightarrow> (Inl err, tr)
      | Inr _ \<Rightarrow>
     (case validateAmount quoteAmount ''quoteAmount'' of
        Inl err \<Rightarrow> (Inl err, tr)
      | Inr _ \<Rightarrow>
     (let orderParams = [(''symbol'', JStr (toUpperCase symbol)), (''side'', JStr ''BUY''),
                         (''type'', JStr ''MARKET''), (''quoteOrderQty'', quoteAmount)]
      in case asterApiRequest e this ''/api/v1/order'' ''POST'' orderParams True tr of
           (ApiFailure err, tr1) \<Rightarrow> (Inr (failure err), tr1)
         | (ApiSuccess None headers, tr1) \<Rightarrow>
             (Inl (TypeError ''Cannot read properties of undefined (reading 'orderId')''), tr1)
         | (ApiSuccess (Some orderData) headers, tr1) \<Rightarrow>
             (Inr (Obj [(''success'', jbool True),
                        (''order'', Obj [(''orderId'', V (obj_get orderData ''orderId'')),
                                         (''symbol'', V (obj_get orderData ''symbol'')),
                                         (''side'', V (obj_get orderData ''side'')),
                                         (''type'', V (obj_get orderData ''type'')),
                                         (''status'', V (obj_get orderData ''status'')),
                                         (''executedQty'', V (obj_get orderData ''executedQty'')),
                                         (''avgPrice'', V (obj_get orderData ''avgPrice'')),
                                         (''cumQuote'', V (obj_get orderData ''cumQuote'')),
                                         (''updateTime'', V (obj_get orderData ''updateTime''))])]),
              tr1))))"

definition marketBuy :: "env \<Rightarrow> tools_api \<Rightarrow> string \<Rightarrow> jsval \<Rightarrow> event list \<Rightarrow> json \<times> event list" where
  "marketBuy e this symbol quoteAmount tr = catching (marketBuy_body e this symbol quoteAmount tr)"

subsection \<open>getWithdrawFee\<close>

definition chainIdMap :: "(string \<times> string) list" where
  "chainIdMap = [(''ethereum'', ''1''), (''arbitrum'', ''42161''), (''bnb'', ''56'')]"

definition chainId_of :: "string \<Rightarrow> jsval" where
  "chainId_of networkLower = (case map_of chainIdMap networkLower of Some c \<Rightarrow> JStr c | None \<Rightarrow> JUndefined)"

definition getWithdrawFee_body ::
  "env \<Rightarrow> tools_api \<Rightarrow> string \<Rightarrow> string \<Rightarrow> event list \<Rightarrow> (js_error + json) \<times> event list" where
  "getWithdrawFee_body e this token network tr =
     (case validateNetwork network (Some [''ethereum'', ''arbitrum'', ''bnb'']) of
        Inl err \<Rightarrow> (Inl err, tr)
      | Inr _ \<Rightarrow>
     (let chainId = chainId_of (toLowerCase network)
      in case asterApiRequest e this ''/api/v1/aster/withdraw/estimateFee'' ''GET''
                [(''chainId'', chainId), (''asset'', JStr (toUpperCase token))] True tr of
           (ApiFailure err, tr1) \<Rightarrow> (Inr (failure err), tr1)
         | (ApiSuccess None headers, tr1) \<Rightarrow>
             (Inl (TypeError ''Cannot read properties of undefined (reading 'gasCost')''), tr1)
         | (ApiSuccess (Some data) headers, tr1) \<Rightarrow>
             (let fee = js_or (obj_get data ''gasCost'') (obj_get data ''fee'')
              in if fee = JNull \<or> fee = JUndefined
                 then (Inr (Obj [(''success'', jbool False),
                                 (''error'', jstr (''Withdrawal fee not available for '' @ toUpperCase token
                                    @ '' on '' @ network @ ''. API response: ''
                                    @ JSON_stringify e (Some data))),
                                 (''chainId'', V chainId),
                                 (''token'', jstr (toUpperCase token)),
                                 (''network'', jstr network)]), tr1)
                 else (Inr (Obj [(''success'', jbool True),
                                 (''token'', jstr (toUpperCase token)),
                                 (''network'', jstr network),
                                 (''chainId'', V chainId),
                                 (''fee'', V fee),
                                 (''gasLimit'', V (obj_get data ''gasLimit'')),
                                 (''tokenPrice'', V (obj_get data ''tokenPrice'')),
                                 (''gasUsdValue'', V (obj_get data ''gasUsdValue'')),
                                 (''minAmount'', V (obj_get data ''minAmount''))]), tr1))))"

definition getWithdrawFee :: "env \<Rightarrow> tools_api \<Rightarrow> string \<Rightarrow> string \<Rightarrow> event list \<Rightarrow> json \<times> event list" where
  "getWithdrawFee e this token network tr = catching (getWithdrawFee_body e this token network tr)"

subsection \<open>withdraw\<close>

definition stablecoins :: "string list" where
  "stablecoins = [''USDT'', ''USDC'', ''BUSD'', ''DAI'', ''TUSD'']"

definition minimum_amount_error :: "string \<Rightarrow> jsval \<Rightarrow> string" where
  "minimum_amount_error tokenUpper amount =
     ''Minimum withdrawal amount for '' @ tokenUpper @ '' is 1.0 (stablecoin). You tried to withdraw ''
     @ js_String amount
     @ ''. For other tokens (BTC, ETH, BNB, ASTER, etc.) smaller amounts are allowed due to higher prices.''"

text \<open>
  \<open>timestamp * 1000\<close> on numbers: the product of two integers, exact up to \<open>2^53\<close> and
  rounded to the nearest double above. (\<open>Date.now()\<close> stays below \<open>8.64 * 10^15\<close>, so
  the product is finite.)
\<close>

definition times_number :: "int \<Rightarrow> int \<Rightarrow> int" where
  "times_number a b =
     (if \<bar>a * b\<bar> \<le> 2 ^ 53 then a * b
      else case to_double (of_int (a * b)) of Fin r \<Rightarrow> \<lfloor>r\<rfloor> | _ \<Rightarrow> a * b)"

text \<open>
  The part of \<open>withdraw\<close> after the fee quote: the timestamp is read once, the nonce is
  computed from it, the withdrawal is signed and submitted.
\<close>

definition withdraw_submit ::
  "env \<Rightarrow> tools_api \<Rightarrow> string \<Rightarrow> jsval \<Rightarrow> string \<Rightarrow> jsval \<Rightarrow> string \<Rightarrow> string \<Rightarrow> jsval \<Rightarrow> json
     \<Rightarrow> event list \<Rightarrow> (js_error + json) \<times> event list" where
  "withdraw_submit e this network chainId tokenUpper amount signingKey receiver destination fee tr =
     (let timestamp = date_now e tr;
          tr1 = tr @ [DateNow];
          nonce = times_number timestamp 1000;
          amountStr = js_String amount;
          feeStr = json_String fee
      in case generateEIP712Signature e
                \<lparr> p_chainId = js_String chainId, p_destination = destination,
                  p_receiver = JStr receiver, p_token = tokenUpper, p_amount = amountStr,
                  p_fee = feeStr, p_nonce = nonce \<rparr> signingKey tr1 of
           (Inl err, tr2) \<Rightarrow> (Inl err, tr2)
         | (Inr userSignature, tr2) \<Rightarrow>
             (let withdrawParams =
                    [(''chainId'', chainId), (''asset'', JStr tokenUpper), (''amount'', JStr amountStr),
                     (''fee'', JStr feeStr), (''receiver'', JStr receiver),
                     (''nonce'', JStr (js_String (JNum nonce))),
                     (''userSignature'', JStr userSignature), (''timestamp'', JNum timestamp)]
              in case asterApiRequest e this ''/api/v1/aster/user-withdraw'' ''POST'' withdrawParams True tr2 of
                   (ApiFailure err, tr3) \<Rightarrow> (Inr (failure err), tr3)
                 | (ApiSuccess None headers, tr3) \<Rightarrow>
                     (Inl (TypeError ''Cannot read properties of undefined (reading 'id')''), tr3)
                 | (ApiSuccess (Some data) headers, tr3) \<Rightarrow>
                     (Inr (Obj [(''success'', jbool True),
                                (''withdrawal'',
                                 Obj [(''id'', V (js_or (obj_get data ''id'') (obj_get data ''withdrawId''))),
                                      (''network'', jstr network),
                                      (''chainId'', V chainId),
                                      (''token'', jstr tokenUpper),
                                      (''amount'', V amount),
                                      (''fee'', fee),
                                      (''from'', jstr receiver),
                                      (''to'', V destination),
                                      (''status'', V (js_or (obj_get data ''status'') (JStr ''pending''))),
                                      (''txHash'', V (js_or (js_or (obj_get data ''txHash'') (obj_get data ''txId''))
                                                        JNull))])]),
                      tr3)))"

text \<open>
  The part of \<open>withdraw\<close> after the checks of its arguments: the signing key and its
  address, the destination, the fee quote.
\<close>

definition withdraw_signed ::
  "env \<Rightarrow> tools_api \<Rightarrow> string \<Rightarrow> string \<Rightarrow> jsval \<Rightarrow> jsval \<Rightarrow> string option \<Rightarrow> event list
     \<Rightarrow> (js_error + json) \<times> event list" where
  "withdraw_signed e this network token amount toAddress privateKey tr =
     (let tokenUpper = toUpperCase token;
          networkLower = toLowerCase network;
          chainId = chainId_of networkLower
      in case getNetworkPrivateKey (Wallet_fromPhrase e) (penv e) networkLower privateKey of
           Inl err \<Rightarrow> (Inl err, tr)
         | Inr signingKey \<Rightarrow>
     (case Wallet_address e signingKey of
        Inl err \<Rightarrow> (Inl err, tr)
      | Inr receiver \<Rightarrow>
     (let destination = js_or toAddress (JStr receiver);
          (feeResponse, tr1) = getWithdrawFee e this token network tr
      in if \<not> json_truthy (field feeResponse ''success'')
         then (Inr (failure (jstr (''Failed to get withdrawal fee: ''
                                    @ json_String (field feeResponse ''error'')))), tr1)
         else (let fee = field feeResponse ''fee''
               in if fee = V JNull \<or> fee = V JUndefined
                  then (Inr (failure (jstr
                          ''Failed to get withdrawal fee: API returned null/undefined fee'')), tr1)
                  else withdraw_submit e this network chainId tokenUpper amount signingKey receiver
                         destination fee tr1))))"

definition withdraw_body ::
  "env \<Rightarrow> tools_api \<Rightarrow> string \<Rightarrow> string \<Rightarrow> jsval \<Rightarrow> jsval \<Rightarrow> string option \<Rightarrow> event list
     \<Rightarrow> (js_error + json) \<times> event list" where
  "withdraw_body e this network token amount toAddress privateKey tr =
     (case validateNetwork network (Some [''ethereum'', ''arbitrum'', ''bnb'']) of
        Inl err \<Rightarrow> (Inl err, tr)
      | Inr _ \<Rightarrow>
     (case validateAmount amount ''amount'' of
        Inl err \<Rightarrow> (Inl err, tr)
      | Inr _ \<Rightarrow>
     (let tokenUpper = toUpperCase token
      in if tokenUpper \<in> set stablecoins \<and> num_lt (parseFloat (js_String amount)) (Fin 1)
         then (Inr (failure (jstr (minimum_amount_error tokenUpper amount))), tr)
         else withdraw_signed e this network token amount toAddress privateKey tr)))"

definition withdraw ::
  "env \<Rightarrow> tools_api \<Rightarrow> string \<Rightarrow> string \<Rightarrow> jsval \<Rightarrow> jsval \<Rightarrow> string option \<Rightarrow> event list
     \<Rightarrow> json \<times> event list" where
  "withdraw e this network token amount toAddress privateKey tr =
     catching (withdraw_body e this network token amount toAddress privateKey tr)"

subsection \<open>deposit\<close>

text \<open>\<open>createSolDepositInstruction\<close> and \<open>deriveUserPDA\<close> of solana-deposit-builder.js.\<close>

definition ASTER_PROGRAM_ID :: string where
  "ASTER_PROGRAM_ID = ''EhUtRgu9iEbZXXRpEvDj6n1wnQRjMi2SERDo3c6bmN2c''"

definition TREASURY_ACCOUNT :: string where
  "TREASURY_ACCOUNT = ''5bXxj9Qa4hj15DHvzTgVy7z2VkEGNWFVQojfbUKAiGpE''"

definition SystemProgram_programId :: string where
  "SystemProgram_programId = ''11111111111111111111111111111111''"

definition LAMPORTS_PER_SOL :: rat where
  "LAMPORTS_PER_SOL = 1000000000"

text \<open>\<open>Math.floor(amountSOL * LAMPORTS_PER_SOL)\<close> and \<open>BigInt\<close> of the result.\<close>

fun floor_lamports :: "jsnum \<Rightarrow> jsnum" where
  "floor_lamports (Fin a) =
     (case to_double (a * LAMPORTS_PER_SOL) of Fin r \<Rightarrow> Fin (of_int \<lfloor>r\<rfloor>) | other \<Rightarrow> other)"
| "floor_lamports other = other"

fun BigInt_of_number :: "jsnum \<Rightarrow> js_error + int" where
  "BigInt_of_number (Fin r) =
     (if of_int \<lfloor>r\<rfloor> = r then Inr \<lfloor>r\<rfloor>
      else Inl (RangeError ''The number cannot be converted to a BigInt because it is not an integer''))"
| "BigInt_of_number other =
     Inl (RangeError ''The number cannot be converted to a BigInt because it is not an integer'')"

definition deriveUserPDA :: "env \<Rightarrow> string \<Rightarrow> js_error + string" where
  "deriveUserPDA e userWallet =
     (case findProgramAddress e [userWallet, ''deposit''] ASTER_PROGRAM_ID of
        Inr pda1 \<Rightarrow> Inr pda1
      | Inl _ \<Rightarrow> findProgramAddress e [userWallet, ''user''] ASTER_PROGRAM_ID)"

definition createSolDepositInstruction :: "env \<Rightarrow> string \<Rightarrow> jsnum \<Rightarrow> js_error + transaction_instruction" where
  "createSolDepositInstruction e userWallet amountSOL =
     (let amountLamports = floor_lamports amountSOL
      in case BigInt_of_number amountLamports of
           Inl err \<Rightarrow> Inl err
         | Inr lamports \<Rightarrow>
             (case buildDepositInstructionData lamports of
                Inl err \<Rightarrow> Inl err
              | Inr data \<Rightarrow>
                  (case deriveUserPDA e userWallet of
                     Inl err \<Rightarrow> Inl err
                   | Inr userPDA \<Rightarrow>
                       Inr \<lparr> ins_keys =
                               [\<lparr> am_pubkey = userWallet, am_isSigner = True, am_isWritable = True \<rparr>,
                                \<lparr> am_pubkey = userPDA, am_isSigner = False, am_isWritable = True \<rparr>,
                                \<lparr> am_pubkey = TREASURY_ACCOUNT, am_isSigner = False, am_isWritable = True \<rparr>,
                                \<lparr> am_pubkey = SystemProgram_programId, am_isSigner = False,
                                  am_isWritable = False \<rparr>],
                             ins_programId = ASTER_PROGRAM_ID,
                             ins_data = data \<rparr>)))"

definition depositSolana_body ::
  "env \<Rightarrow> string \<Rightarrow> jsval \<Rightarrow> string option \<Rightarrow> event list \<Rightarrow> (js_error + json) \<times> event list" where
  "depositSolana_body e token amount privateKey tr =
     (case getTokenConfig (TOKENS e) token ''solana'' of
        None \<Rightarrow> (Inr (failure (jstr (''Token '' @ token @ '' not supported on Solana''))), tr)
      | Some tokenConfig \<Rightarrow>
     (if tc_type tokenConfig \<noteq> ''native''
      then (Inr (failure (jstr
              ''SPL token deposits not yet implemented. Only SOL deposits are currently supported.'')), tr)
      else
     (case getNetworkRpcUrl (penv e) ''solana'' of
        Inl err \<Rightarrow> (Inl err, tr)
      | Inr rpcUrl \<Rightarrow>
     (case getNetworkPrivateKey (Wallet_fromPhrase e) (penv e) ''solana'' privateKey of
        Inl err \<Rightarrow> (Inl err, tr)
      | Inr signingKey \<Rightarrow>
     (case Keypair_publicKey e signingKey of
        Inl err \<Rightarrow> (Inl err, tr)
      | Inr publicKey \<Rightarrow>
     (case createSolDepositInstruction e publicKey (parseFloat (js_String amount)) of
        Inl err \<Rightarrow> (Inl err, tr)
      | Inr instruction \<Rightarrow>
     (let tr1 = tr @ [SolanaRpc rpcUrl GetLatestBlockhash]
      in case solana_getLatestBlockhash e tr rpcUrl of
           Inl err \<Rightarrow> (Inl err, tr1)
         | Inr blockhash \<Rightarrow>
     (let transaction = \<lparr> stx_instructions = [instruction], stx_recentBlockhash = blockhash,
                           stx_feePayer = publicKey, stx_signers = [publicKey] \<rparr>;
          tr2 = tr1 @ [SolanaRpc rpcUrl (SendAndConfirmTransaction transaction)]
      in case solana_sendAndConfirmTransaction e tr1 rpcUrl transaction of
           Inl err \<Rightarrow> (Inl err, tr2)
         | Inr signature \<Rightarrow>
     (let tr3 = tr2 @ [SolanaRpc rpcUrl (GetTransaction signature)]
      in case solana_getTransaction e tr2 rpcUrl signature of
           Inl err \<Rightarrow> (Inl err, tr3)
         | Inr txDetails \<Rightarrow>
             (Inr (Obj [(''success'', jbool True),
                        (''deposit'',
                         Obj [(''network'', jstr ''Solana''),
                              (''token'', jstr (tc_symbol tokenConfig)),
                              (''amount'', V amount),
                              (''txHash'', jstr signature),
                              (''slot'', V (case txDetails of Some slot \<Rightarrow> JNum slot | None \<Rightarrow> JNull)),
                              (''status'', jstr ''confirmed''),
                              (''explorerUrl'', jstr (''https://solscan.io/tx/'' @ signature))])]),
              tr3))))))))))"

definition depositSolana ::
  "env \<Rightarrow> string \<Rightarrow> jsval \<Rightarrow> string option \<Rightarrow> event list \<Rightarrow> json \<times> event list" where
  "depositSolana e token amount privateKey tr = catching (depositSolana_body e token amount privateKey tr)"

text \<open>\<open>ethers.parseUnits(amount, decimals)\<close> accepts a string only.\<close>

definition parseUnits_value :: "env \<Rightarrow> jsval \<Rightarrow> int \<Rightarrow> js_error + int" where
  "parseUnits_value e amount decimals =
     (case amount of JStr s \<Rightarrow> parseUnits e s decimals
      | _ \<Rightarrow> Inl (TypeError ''invalid string value''))"

text \<open>The native branch: one transaction, \<open>depositNative(1000, {value})\<close>, and its receipt.\<close>

definition deposit_native ::
  "env \<Rightarrow> string \<Rightarrow> token_config \<Rightarrow> jsval \<Rightarrow> deposit_contract \<Rightarrow> string \<Rightarrow> string \<Rightarrow> event list
     \<Rightarrow> (js_error + json) \<times> event list" where
  "deposit_native e network tokenConfig amount depositContract rpcUrl walletAddress tr =
     (case parseUnits_value e amount 18 of
        Inl err \<Rightarrow> (Inl err, tr)
      | Inr val \<Rightarrow>
     (let call = DepositNative (dc_address depositContract) 1000 val;
          tr1 = tr @ [EthSend rpcUrl walletAddress call]
      in case eth_send e tr rpcUrl walletAddress call of
           Inl err \<Rightarrow> (Inl err, tr1)
         | Inr txHash \<Rightarrow>
     (let tr2 = tr1 @ [EthWait rpcUrl txHash None]
      in case eth_wait e tr1 rpcUrl txHash None of
           Inl err \<Rightarrow> (Inl err, tr2)
         | Inr blockNumber \<Rightarrow>
             (Inr (Obj [(''success'', jbool True),
                        (''deposit'',
                         Obj [(''network'', jstr network),
                              (''token'', jstr (tc_symbol tokenConfig)),
                              (''amount'', V amount),
                              (''txHash'', jstr txHash),
                              (''blockNumber'', jnum blockNumber),
                              (''status'', jstr ''confirmed''),
                              (''explorerUrl'', jstr (dc_explorerUrl depositContract @ txHash))])]),
              tr2))))"

text \<open>
  The second phase of the ERC20 branch: the \<open>deposit(token, amount, 1000)\<close> transaction
  and its receipt.
\<close>

definition deposit_erc20_deposit ::
  "env \<Rightarrow> string \<Rightarrow> string \<Rightarrow> jsval \<Rightarrow> deposit_contract \<Rightarrow> string \<Rightarrow> string \<Rightarrow> string \<Rightarrow> int
     \<Rightarrow> event list \<Rightarrow> (js_error + json) \<times> event list" where
  "deposit_erc20_deposit e network token amount depositContract rpcUrl walletAddress
       normalizedTokenAddress amountBN tr =
     (let call = Deposit (dc_address depositContract) normalizedTokenAddress amountBN 1000;
          tr1 = tr @ [EthSend rpcUrl walletAddress call]
      in case eth_send e tr rpcUrl walletAddress call of
           Inl err \<Rightarrow> (Inl err, tr1)
         | Inr txHash \<Rightarrow>
     (let tr2 = tr1 @ [EthWait rpcUrl txHash (Some 300000)]
      in case eth_wait e tr1 rpcUrl txHash (Some 300000) of
           Inl err \<Rightarrow> (Inl err, tr2)
         | Inr blockNumber \<Rightarrow>
             (Inr (Obj [(''success'', jbool True),
                        (''deposit'',
                         Obj [(''network'', jstr network),
                              (''token'', jstr token),
                              (''tokenAddress'', jstr normalizedTokenAddress),
                              (''amount'', V amount),
                              (''txHash'', jstr txHash),
                              (''blockNumber'', jnum blockNumber),
                              (''status'', jstr ''confirmed''),
                              (''explorerUrl'', jstr (dc_explorerUrl depositContract @ txHash))])]),
              tr2)))"

text \<open>
  The ERC20 branch: the decimals and the allowance are read, an approval for \<open>amountBN\<close>
  is sent and awaited when the allowance is below \<open>amountBN\<close>, then the deposit is sent.
\<close>

definition deposit_erc20 ::
  "env \<Rightarrow> string \<Rightarrow> string \<Rightarrow> jsval \<Rightarrow> string option \<Rightarrow> deposit_contract \<Rightarrow> string \<Rightarrow> string
     \<Rightarrow> event list \<Rightarrow> (js_error + json) \<times> event list" where
  "deposit_erc20 e network token amount tokenAddress depositContract rpcUrl walletAddress tr =
     (case (case tokenAddress of
              None \<Rightarrow> Inl (TypeError ''Cannot read properties of undefined (reading 'toLowerCase')'')
            | Some a \<Rightarrow> getAddress e (toLowerCase a)) of
        Inl err \<Rightarrow> (Inl err, tr)
      | Inr normalizedTokenAddress \<Rightarrow>
     (let tr1 = tr @ [EthCall rpcUrl (Decimals normalizedTokenAddress)]
      in case eth_call e tr rpcUrl (Decimals normalizedTokenAddress) of
           Inl err \<Rightarrow> (Inl err, tr1)
         | Inr decimals \<Rightarrow>
     (case parseUnits_value e amount decimals of
        Inl err \<Rightarrow> (Inl err, tr1)
      | Inr amountBN \<Rightarrow>
     (let allowance = Allowance normalizedTokenAddress walletAddress (dc_address depositContract);
          tr2 = tr1 @ [EthCall rpcUrl allowance]
      in case eth_call e tr1 rpcUrl allowance of
           Inl err \<Rightarrow> (Inl err, tr2)
         | Inr currentAllowance \<Rightarrow>
             if currentAllowance < amountBN
             then (let approve = Approve normalizedTokenAddress (dc_address depositContract) amountBN 100000;
                       tr3 = tr2 @ [EthSend rpcUrl walletAddress approve]
                   in case eth_send e tr2 rpcUrl walletAddress approve of
                        Inl err \<Rightarrow> (Inl err, tr3)
                      | Inr approveHash \<Rightarrow>
                          (let tr4 = tr3 @ [EthWait rpcUrl approveHash (Some 300000)]
                           in case eth_wait e tr3 rpcUrl approveHash (Some 300000) of
                                Inl err \<Rightarrow> (Inl err, tr4)
                              | Inr _ \<Rightarrow>
                                  deposit_erc20_deposit e network token amount depositContract rpcUrl
                                    walletAddress normalizedTokenAddress amountBN tr4))
             else deposit_erc20_deposit e network token amount depositContract rpcUrl
                    walletAddress normalizedTokenAddress amountBN tr2))))"

definition deposit_body ::
  "env \<Rightarrow> string \<Rightarrow> string \<Rightarrow> jsval \<Rightarrow> string option \<Rightarrow> event list \<Rightarrow> (js_error + json) \<times> event list" where
  "deposit_body e network token amount privateKey tr =
     (case validateNetwork network None of
        Inl err \<Rightarrow> (Inl err, tr)
      | Inr _ \<Rightarrow>
     (case validateAmount amount ''amount'' of
        Inl err \<Rightarrow> (Inl err, tr)
      | Inr _ \<Rightarrow>
     (let networkLower = toLowerCase network
      in if networkLower = ''solana''
         then (let (result, tr1) = depositSolana e token amount privateKey tr in (Inr result, tr1))
         else
     (let tokenConfig = getTokenConfig (TOKENS e) token networkLower;
          isNative = (case tokenConfig of None \<Rightarrow> False | Some c \<Rightarrow> tc_type c = ''native'');
          tokenAddress = (case tokenConfig of None \<Rightarrow> Some token | Some c \<Rightarrow> tc_address c)
      in case getDepositContract networkLower of
           Inl err \<Rightarrow> (Inl err, tr)
         | Inr depositContract \<Rightarrow>
     (case getNetworkRpcUrl (penv e) networkLower of
        Inl err \<Rightarrow> (Inl err, tr)
      | Inr rpcUrl \<Rightarrow>
     (case getNetworkPrivateKey (Wallet_fromPhrase e) (penv e) networkLower privateKey of
        Inl err \<Rightarrow> (Inl err, tr)
      | Inr signingKey \<Rightarrow>
     (case Wallet_address e signingKey of
        Inl err \<Rightarrow> (Inl err, tr)
      | Inr walletAddress \<Rightarrow>
          (case tokenConfig of
             Some c \<Rightarrow>
               if isNative
               then deposit_native e network c amount depositContract rpcUrl walletAddress tr
               else deposit_erc20 e network token amount tokenAddress depositContract rpcUrl
                      walletAddress tr
           | None \<Rightarrow>
               deposit_erc20 e network token amount tokenAddress depositContract rpcUrl
                 walletAddress tr))))))))"

definition deposit ::
  "env \<Rightarrow> string \<Rightarrow> string \<Rightarrow> jsval \<Rightarrow> string option \<Rightarrow> event list \<Rightarrow> json \<times> event list" where
  "deposit e network token amount privateKey tr = catching (deposit_body e network token amount privateKey tr)"

subsection \<open>swapAndBridge\<close>

text \<open>
  The saga calls \<open>this.deposit\<close>, \<open>this.marketBuy\<close> and \<open>this.withdraw\<close>;
  \<open>swapAndBridge_steps\<close> is its body with the three methods as arguments, and
  \<open>swapAndBridge\<close> is the body with the methods of the class. The waits between the
  steps are not modelled. The executed quantity that the order reports is a primitive
  value, which \<open>prim\<close> reads.
\<close>

definition prim :: "json \<Rightarrow> jsval" where
  "prim x = (case x of V v \<Rightarrow> v | _ \<Rightarrow> JUndefined)"

definition swapAndBridge_steps ::
  "(string \<Rightarrow> string \<Rightarrow> jsval \<Rightarrow> string option \<Rightarrow> event list \<Rightarrow> json \<times> event list)
   \<Rightarrow> (string \<Rightarrow> jsval \<Rightarrow> event list \<Rightarrow> json \<times> event list)
   \<Rightarrow> (string \<Rightarrow> string \<Rightarrow> json \<Rightarrow> jsval \<Rightarrow> string option \<Rightarrow> event list \<Rightarrow> json \<times> event list)
   \<Rightarrow> string \<Rightarrow> string \<Rightarrow> jsval \<Rightarrow> string \<Rightarrow> string \<Rightarrow> jsval \<Rightarrow> string option \<Rightarrow> event list
   \<Rightarrow> (js_error + json) \<times> event list" where
  "swapAndBridge_steps this_deposit this_marketBuy this_withdraw
       fromNetwork fromToken fromAmount targetToken toNetwork toAddress privateKey tr =
     (let (depositResult, tr1) = this_deposit fromNetwork fromToken fromAmount privateKey tr
      in if \<not> json_truthy (field depositResult ''success'')
         then (Inr (Obj [(''success'', jbool False),
                         (''error'', jstr (''Deposit failed: '' @ json_String (field depositResult ''error''))),
                         (''failedAt'', jstr ''deposit'')]), tr1)
         else
     (let steps1 = [Obj (spread [(''step'', jnum 1), (''action'', jstr ''deposit'')]
                               (field depositResult ''deposit''))]
      in case getprop (field depositResult ''deposit'') ''txHash'' of
           Inl err \<Rightarrow> (Inl err, tr1)
         | Inr _ \<Rightarrow>
     (let tradingPair = toUpperCase (targetToken @ fromToken);
          (swapResult, tr2) = this_marketBuy tradingPair fromAmount tr1
      in if \<not> json_truthy (field swapResult ''success'')
         then (Inr (Obj [(''success'', jbool False),
                         (''error'', jstr (''Swap failed: '' @ json_String (field swapResult ''error''))),
                         (''failedAt'', jstr ''swap''),
                         (''partialResults'',
                          Obj [(''success'', jbool True), (''steps'', Arr steps1)])]), tr2)
         else
     (let steps2 = steps1 @ [Obj (spread [(''step'', jnum 2), (''action'', jstr ''swap'')]
                                         (field swapResult ''order''))]
      in case getprop (field swapResult ''order'') ''executedQty'' of
           Inl err \<Rightarrow> (Inl err, tr2)
         | Inr withdrawAmount \<Rightarrow>
     (let (withdrawResult, tr3) = this_withdraw toNetwork targetToken withdrawAmount toAddress privateKey tr2
      in if \<not> json_truthy (field withdrawResult ''success'')
         then (Inr (Obj [(''success'', jbool False),
                         (''error'', jstr (''Withdrawal failed: ''
                                            @ json_String (field withdrawResult ''error''))),
                         (''failedAt'', jstr ''withdraw''),
                         (''partialResults'',
                          Obj [(''success'', jbool True), (''steps'', Arr steps2)])]), tr3)
         else
     (let steps3 = steps2 @ [Obj (spread [(''step'', jnum 3), (''action'', jstr ''withdraw'')]
                                         (field withdrawResult ''withdrawal''))]
      in case getprop (field withdrawResult ''withdrawal'') ''txHash'' of
           Inl err \<Rightarrow> (Inl err, tr3)
         | Inr _ \<Rightarrow>
             (Inr (Obj [(''success'', jbool True),
                        (''summary'',
                         Obj [(''deposited'', jstr (js_String fromAmount @ '' '' @ fromToken @ '' on ''
                                                      @ fromNetwork)),
                              (''swapped'', jstr (json_String withdrawAmount @ '' '' @ targetToken)),
                              (''withdrawn'', jstr (json_String withdrawAmount @ '' '' @ targetToken
                                                      @ '' to '' @ toNetwork)),
                              (''destination'', V toAddress)]),
                        (''steps'', Arr steps3)]), tr3)))))))"

definition swapAndBridge ::
  "env \<Rightarrow> tools_api \<Rightarrow> string \<Rightarrow> string \<Rightarrow> jsval \<Rightarrow> string \<Rightarrow> string \<Rightarrow> jsval \<Rightarrow> string option
     \<Rightarrow> event list \<Rightarrow> json \<times> event list" where
  "swapAndBridge e this fromNetwork fromToken fromAmount targetToken toNetwork toAddress privateKey tr =
     catching (swapAndBridge_steps (deposit e) (marketBuy e this)
                 (\<lambda>network token amount. withdraw e this network token (prim amount))
                 fromNetwork fromToken fromAmount targetToken toNetwork toAddress privateKey tr)"

section \<open>Notions used in the statements\<close>

text \<open>A key passed by the caller is absent when it is \<open>null\<close> or the empty string.\<close>

definition key_absent :: "string option \<Rightarrow> bool" where
  "key_absent k = (k = None \<or> k = Some [])"

section \<open>An environment for the examples\<close>

text \<open>
  A small world: a wallet configured for BNB Chain, two tokens, a clock that advances with
  the trace, an exchange that quotes a fee, fills orders and accepts withdrawals, and a
  node that confirms every transaction. The examples below change one answer at a time.
\<close>

definition demo_tokens :: "(string \<times> (string \<times> token_config) list) list" where
  "demo_tokens =
     [(''bnb'',
       [(''BNB'', \<lparr> tc_symbol = ''BNB'', tc_name = ''BNB'', tc_address = None, tc_decimals = 18,
                    tc_type = ''native'', tc_network = [] \<rparr>),
        (''USDT'', \<lparr> tc_symbol = ''USDT'', tc_name = ''Tether USD'',
                     tc_address = Some ''0x55d398326f99059fF775485246999027B3197955'',
                     tc_decimals = 18, tc_type = ''erc20'', tc_network = [] \<rparr>)])]"

definition demo_axios :: "event list \<Rightarrow> http_config \<Rightarrow> http_outcome" where
  "demo_axios tr config =
     (if cfg_method config = ''GET''
      then Response (Some [(''gasCost'', JStr ''0.25'')]) []
      else if cfg_url config = ''https://sapi.asterdex.com/api/v1/order''
      then Response (Some [(''orderId'', JNum 42), (''symbol'', JStr ''ASTERUSDT''),
                           (''status'', JStr ''FILLED''), (''executedQty'', JStr ''7.5'')]) []
      else Response (Some [(''withdrawId'', JStr ''w-1'')]) [])"

definition demo_env :: env where
  "demo_env =
     \<lparr> penv = map_of [(''BNB_RPC_URL'', ''https://bsc.example''), (''BNB_WALLET_PRIVATE_KEY'', ''0xKEY'')],
       TOKENS = demo_tokens,
       date_now = (\<lambda>tr. 1700000000000 + int (length tr)),
       axios = demo_axios,
       hmac_sha256_hex = (\<lambda>secret msg. ''sig'' @ int_toString (int (length msg))),
       JSON_stringify = (\<lambda>data. ''{}''),
       Wallet_fromPhrase = (\<lambda>phrase. Inl (Error ''invalid mnemonic'')),
       Wallet_address = (\<lambda>key. if key = ''0xKEY'' then Inr ''0xAbC1'' else Inl (TypeError ''invalid private key'')),
       getAddress = (\<lambda>a. if a = ''0xabc1'' then Inr ''0xAbC1''
                          else if a = ''0x55d398326f99059ff775485246999027b3197955''
                          then Inr ''0x55d398326f99059fF775485246999027B3197955''
                          else Inl (Error ''invalid address'')),
       parseUnits = (\<lambda>s decimals. if s = ''2'' then Inr (2 * 10 ^ nat decimals)
                                  else Inl (Error ''invalid decimal value'')),
       signTypedData = (\<lambda>key domain val. Inr ''0xSIGNED''),
       eth_call = (\<lambda>tr rpcUrl call. case call of Decimals t \<Rightarrow> Inr 18 | _ \<Rightarrow> Inr 0),
       eth_send = (\<lambda>tr rpcUrl sender call. Inr (''0xTX'' @ int_toString (int (length tr)))),
       eth_wait = (\<lambda>tr rpcUrl txHash timeout. Inr 1000),
       Keypair_publicKey = (\<lambda>key. Inl (Error ''Non-base58 character'')),
       findProgramAddress = (\<lambda>seeds program. Inl (Error ''no address'')),
       solana_getLatestBlockhash = (\<lambda>tr rpcUrl. Inl (Error ''unreachable'')),
       solana_sendAndConfirmTransaction = (\<lambda>tr rpcUrl t. Inl (Error ''unreachable'')),
       solana_getTransaction = (\<lambda>tr rpcUrl s. Inl (Error ''unreachable'')) \<rparr>"

definition demo_api :: tools_api where
  "demo_api = \<lparr> asterApiKey = ''key'', asterApiSecret = ''secret'',
                 asterBaseUrl = ''https://sapi.asterdex.com'', recvWindow = JNum 5000 \<rparr>"

text \<open>The same world with an exchange that rejects the order.\<close>

definition demo_env_order_rejected :: env where
  "demo_env_order_rejected =
     demo_env \<lparr> axios := (\<lambda>tr config.
       if cfg_url config = ''https://sapi.asterdex.com/api/v1/order''
       then ErrorResponse 400 (Some [(''code'', JNum (- 2010)), (''msg'', JStr ''Insufficient balance'')])
              ''Request failed with status code 400''
       else demo_axios tr config) \<rparr>"

text \<open>
  A result that reports success carries a \<open>deposit\<close> object whose keys are distinct and
  are neither \<open>step\<close> nor \<open>action\<close>.
\<close>

definition deposit_payload_ok :: "json \<Rightarrow> bool" where
  "deposit_payload_ok r =
     (json_truthy (field r ''success'') \<longrightarrow>
        (\<exists>p. field r ''deposit'' = Obj p \<and> distinct (map fst p)
              \<and> ''step'' \<notin> fst ` set p \<and> ''action'' \<notin> fst ` set p))"

definition deposit_body_ok :: "(js_error + json) \<times> event list \<Rightarrow> bool" where
  "deposit_body_ok r = (case fst r of Inl err \<Rightarrow> True | Inr j \<Rightarrow> deposit_payload_ok j)"

text \<open>The same world with the exchange unreachable.\<close>

definition demo_env_offline :: env where
  "demo_env_offline = demo_env \<lparr> axios := (\<lambda>tr config. NoResponse ''connect ECONNREFUSED'') \<rparr>"

text \<open>The same world with an allowance already granted to the deposit contract.\<close>

definition demo_env_allowance :: env where
  "demo_env_allowance =
     demo_env \<lparr> eth_call := (\<lambda>tr rpcUrl call.
       case call of Decimals t \<Rightarrow> Inr 18 | _ \<Rightarrow> Inr 5000000000000000000) \<rparr>"

definition demo_options :: api_options where
  "demo_options =
     \<lparr> opt_baseUrl = ''https://sapi.asterdex.com'', opt_endpoint = ''/api/v1/account'',
       opt_method = ''GET'', opt_params = [], opt_signed = True, opt_apiKey = ''key'',
       opt_apiSecret = ''secret'', opt_recvWindow = JNum 5000 \<rparr>"

definition credentials_message :: string where
  "credentials_message =
     ''API credentials not configured. API key and secret are required for signed requests''"

text \<open>
  A withdrawal that passes the checks of its arguments, resolves the signing key
  \<open>signingKey\<close> with the address \<open>receiver\<close>, and obtains the fee quote \<open>fee\<close>, the
  trace being \<open>tr1\<close> after the quote.
\<close>

definition withdraw_quoted ::
  "env \<Rightarrow> tools_api \<Rightarrow> string \<Rightarrow> string \<Rightarrow> jsval \<Rightarrow> string option \<Rightarrow> event list
     \<Rightarrow> string \<Rightarrow> string \<Rightarrow> json \<Rightarrow> event list \<Rightarrow> bool" where
  "withdraw_quoted e this network token amount privateKey tr signingKey receiver fee tr1 =
     (validateNetwork network (Some [''ethereum'', ''arbitrum'', ''bnb'']) = Inr True
      \<and> validateAmount amount ''amount'' = Inr True
      \<and> \<not> (toUpperCase token \<in> set stablecoins \<and> num_lt (parseFloat (js_String amount)) (Fin 1))
      \<and> getNetworkPrivateKey (Wallet_fromPhrase e) (penv e) (toLowerCase network) privateKey = Inr signingKey
      \<and> Wallet_address e signingKey = Inr receiver
      \<and> snd (getWithdrawFee e this token network tr) = tr1
      \<and> json_truthy (field (fst (getWithdrawFee e this token network tr)) ''success'')
      \<and> field (fst (getWithdrawFee e this token network tr)) ''fee'' = fee
      \<and> fee \<noteq> V JNull \<and> fee \<noteq> V JUndefined)"

text \<open>
  A deposit that reaches the ERC20 branch and reads the allowance: the arguments pass the
  checks, the network is an EVM network, the token is not native and its address
  normalises to \<open>tokenAddr\<close>, the contract, the node and the wallet are resolved, the
  decimals are read and the amount scales to \<open>amountBN\<close>, and the allowance read is
  \<open>currentAllowance\<close>.
\<close>

definition erc20_deposit_ready ::
  "env \<Rightarrow> string \<Rightarrow> string \<Rightarrow> jsval \<Rightarrow> string option \<Rightarrow> event list
     \<Rightarrow> string \<Rightarrow> string \<Rightarrow> deposit_contract \<Rightarrow> string \<Rightarrow> int \<Rightarrow> int \<Rightarrow> bool" where
  "erc20_deposit_ready e network token amount privateKey tr rpcUrl walletAddress depositContract
       tokenAddr amountBN currentAllowance =
     (validateNetwork network None = Inr True
      \<and> validateAmount amount ''amount'' = Inr True
      \<and> toLowerCase network \<noteq> ''solana''
      \<and> (case getTokenConfig (TOKENS e) token (toLowerCase network) of
            None \<Rightarrow> getAddress e (toLowerCase token) = Inr tokenAddr
          | Some c \<Rightarrow> tc_type c \<noteq> ''native''
                      \<and> (case tc_address c of None \<Rightarrow> False
                          | Some a \<Rightarrow> getAddress e (toLowerCase a) = Inr tokenAddr))
      \<and> getDepositContract (toLowerCase network) = Inr depositContract
      \<and> getNetworkRpcUrl (penv e) (toLowerCase network) = Inr rpcUrl
      \<and> (case getNetworkPrivateKey (Wallet_fromPhrase e) (penv e) (toLowerCase network) privateKey of
            Inl err \<Rightarrow> False
          | Inr signingKey \<Rightarrow> Wallet_address e signingKey = Inr walletAddress)
      \<and> (case eth_call e tr rpcUrl (Decimals tokenAddr) of
            Inl err \<Rightarrow> False
          | Inr decimals \<Rightarrow> parseUnits_value e amount decimals = Inr amountBN)
      \<and> eth_call e (tr @ [EthCall rpcUrl (Decimals tokenAddr)]) rpcUrl
           (Allowance tokenAddr walletAddress (dc_address depositContract)) = Inr currentAllowance)"

text \<open>What \<open>axios\<close> answers to the request that \<open>makeApiRequest\<close> builds from its options.\<close>

definition axios_outcome :: "env \<Rightarrow> api_options \<Rightarrow> event list \<Rightarrow> http_outcome" where
  "axios_outcome e options tr =
     axios e (snd (requestParams_of e options tr))
       (request_config e options (fst (requestParams_of e options tr)))"

text \<open>A signed request without an API key or without an API secret.\<close>

definition credentials_missing :: "api_options \<Rightarrow> bool" where
  "credentials_missing options =
     (opt_signed options \<and> (opt_apiKey options = [] \<or> opt_apiSecret options = []))"


text \<open>
  What a trace shows of a withdrawal: the methods of its HTTP requests in order, and the
  amounts of the typed data it had signed.
\<close>

fun http_methods :: "event list \<Rightarrow> string list" where
  "http_methods [] = []"
| "http_methods (Http config # tr) = cfg_method config # http_methods tr"
| "http_methods (ev # tr) = http_methods tr"

fun signed_amounts :: "event list \<Rightarrow> string list" where
  "signed_amounts [] = []"
| "signed_amounts (SignTypedData k d v # tr) = act_amount v # signed_amounts tr"
| "signed_amounts (ev # tr) = signed_amounts tr"
section \<open>The deposit instruction payload\<close>

lemma le_value_le_bytes: "le_value (le_bytes n v) = v mod 256 ^ n"
proof (induction n arbitrary: v)
  case 0
  show ?case by simp
next
  case (Suc n)
  have "v mod (256 * 256 ^ n) = 256 * (v div 256 mod 256 ^ n) + v mod 256"
    by (rule zmod_zmult2_eq) simp
  then show ?case by (simp add: Suc uint_word_of_int)
qed

lemma length_le_bytes: "length (le_bytes n v) = n"
  by (induction n arbitrary: v) simp_all

lemma brokerWithDiscriminator_eq: "push_bit 8 B OR 108 = B * 256 + (108::int)"
proof -
  have d: "drop_bit 8 (push_bit 8 B OR (108::int)) = B"
    by (simp add: drop_bit_or drop_bit_push_bit)
  have t: "take_bit 8 (push_bit 8 B OR (108::int)) = 108"
    by (simp add: take_bit_or take_bit_push_bit)
  have "push_bit 8 (drop_bit 8 (push_bit 8 B OR (108::int))) + take_bit 8 (push_bit 8 B OR (108::int))
        = push_bit 8 B OR 108"
    by (rule bits_ident)
  then have "push_bit 8 B + 108 = push_bit 8 B OR (108::int)"
    by (simp only: d t)
  then show ?thesis
    by (simp add: push_bit_eq_mult)
qed

lemma low_byte_108: "(word_of_int (B * 256 + 108) :: 8 word) = 108"
proof -
  have "uint (word_of_int (B * 256 + 108) :: 8 word) = (B * 256 + 108) mod 2 ^ 8"
    by (subst uint_word_of_int) simp
  then have "uint (word_of_int (B * 256 + 108) :: 8 word) = uint (108 :: 8 word)"
    by simp
  then show ?thesis
    by (simp only: word_uint_eq_iff)
qed

lemma build_eq:
  assumes "0 \<le> B" "B < 2 ^ 56" "0 \<le> L" "L < 2 ^ 64"
  shows "buildDepositInstructionData_broker B L = Inr (le_bytes 8 (B * 256 + 108) @ le_bytes 8 L)"
proof -
  have r: "0 \<le> B * 256 + 108" "B * 256 + 108 < 2 ^ 64"
    using assms by simp_all
  have w1: "writeUInt8 108 0 (Buffer_alloc 16) = Inr ((Buffer_alloc 16)[0 := 108])"
    by (simp add: writeUInt8_def Buffer_alloc_def)
  have w2: "writeBigUInt64LE (B * 256 + 108) 0 ((Buffer_alloc 16)[0 := 108])
            = Inr (le_bytes 8 (B * 256 + 108) @ replicate 8 0)"
    using r by (simp add: writeBigUInt64LE_def Buffer_alloc_def drop_update_swap del: le_bytes.simps)
  have w3: "writeBigUInt64LE L 8 (le_bytes 8 (B * 256 + 108) @ replicate 8 0)
            = Inr (le_bytes 8 (B * 256 + 108) @ le_bytes 8 L)"
    using assms by (simp add: writeBigUInt64LE_def length_le_bytes del: le_bytes.simps)
  show ?thesis
    by (simp add: buildDepositInstructionData_broker_def w1 DEPOSIT_DISCRIMINATOR_def
        brokerWithDiscriminator_eq w2 w3 del: le_bytes.simps)
qed

lemma decode_words_eq:
  assumes "0 \<le> B" "B < 2 ^ 56" "0 \<le> L" "L < 2 ^ 64"
  shows "length (le_bytes 8 (B * 256 + 108) @ le_bytes 8 L) = 16"
    and "(le_bytes 8 (B * 256 + 108) @ le_bytes 8 L) ! 0 = 108"
    and "decodeInstructionWords (le_bytes 8 (B * 256 + 108) @ le_bytes 8 L) = Inr (108, B, L)"
proof -
  let ?d = "le_bytes 8 (B * 256 + 108) @ le_bytes 8 L"
  have r: "0 \<le> B * 256 + 108" "B * 256 + 108 < 2 ^ 64"
    using assms by simp_all
  show len: "length ?d = 16"
    by (simp add: length_le_bytes del: le_bytes.simps)
  have "?d ! 0 = (word_of_int (B * 256 + 108) :: 8 word)"
    by (simp add: numeral_nat)
  also have "\<dots> = 108"
    by (rule low_byte_108)
  finally show first: "?d ! 0 = 108" .
  then have b0: "readUInt8 ?d 0 = Inr 108"
    using len by (simp add: readUInt8_def del: le_bytes.simps)
  have f: "readBigUInt64LE ?d 0 = Inr (B * 256 + 108)"
    using r len by (simp add: readBigUInt64LE_def length_le_bytes le_value_le_bytes del: le_bytes.simps)
  have a: "readBigUInt64LE ?d 8 = Inr L"
    using assms len by (simp add: readBigUInt64LE_def length_le_bytes le_value_le_bytes del: le_bytes.simps)
  have sh: "drop_bit 8 (B * 256 + 108) = B"
    by (simp add: drop_bit_eq_div)
  show "decodeInstructionWords ?d = Inr (108, B, L)"
    using len by (simp add: decodeInstructionWords_def b0 f a sh del: le_bytes.simps)
qed

lemma digits_of_16_108: "digits_of 16 108 = ''6c''"
  by code_simp

text \<open>
  Claim C2. For every broker id \<open>B\<close> below \<open>2^56\<close> and every lamport amount \<open>L\<close>
  below \<open>2^64\<close> (both non-negative), the encoder returns a buffer of exactly 16 bytes
  whose byte 0 is the opcode \<open>0x6c\<close>, and decoding that buffer gives back \<open>B\<close> (the
  64-bit little-endian word at offset 0, shifted right by 8) and \<open>L\<close> (the word at
  offset 8): as the numbers the decoder reads, and as the decimal strings it returns.
\<close>

theorem deposit_instruction_roundtrip:
  assumes "0 \<le> B" and "B < 2 ^ 56" and "0 \<le> L" and "L < 2 ^ 64"
  shows "\<exists>data. buildDepositInstructionData_broker B L = Inr data
           \<and> length data = 16
           \<and> data ! 0 = 0x6c
           \<and> decodeInstructionWords data = Inr (0x6c, B, L)
           \<and> decodeInstructionData data
               = Inr \<lparr> discriminator = ''0x6c'', broker = int_toString B,
                       amountLamports = int_toString L, raw = concat (map byte_hex data) \<rparr>"
proof -
  let ?d = "le_bytes 8 (B * 256 + 108) @ le_bytes 8 L"
  note d = decode_words_eq [OF assms]
  have "decodeInstructionData ?d
          = Inr \<lparr> discriminator = ''0x6c'', broker = int_toString B,
                  amountLamports = int_toString L, raw = concat (map byte_hex ?d) \<rparr>"
    by (simp add: decodeInstructionData_def d(3) digits_of_16_108 del: le_bytes.simps)
  with build_eq [OF assms] d show ?thesis
    by (intro exI [of _ ?d]) (simp del: le_bytes.simps)
qed

theorem deposit_instruction_roundtrip_witness:
  "(0::int) \<le> BROKER_ID \<and> BROKER_ID < 2 ^ 56 \<and> (0::int) \<le> 1500000000 \<and> (1500000000::int) < 2 ^ 64
   \<and> (\<exists>data. buildDepositInstructionData 1500000000 = Inr data
        \<and> length data = 16 \<and> data ! 0 = 0x6c
        \<and> decodeInstructionWords data = Inr (0x6c, 56357235818057297, 1500000000))"
proof -
  have h: "(0::int) \<le> BROKER_ID" "BROKER_ID < 2 ^ 56" "(0::int) \<le> 1500000000" "(1500000000::int) < 2 ^ 64"
    by (simp_all add: BROKER_ID_def)
  from deposit_instruction_roundtrip [OF h] obtain data where
    "buildDepositInstructionData_broker BROKER_ID 1500000000 = Inr data"
    "length data = 16" "data ! 0 = 0x6c"
    "decodeInstructionWords data = Inr (0x6c, BROKER_ID, 1500000000)"
    by blast
  then have "buildDepositInstructionData 1500000000 = Inr data
        \<and> length data = 16 \<and> data ! 0 = 0x6c
        \<and> decodeInstructionWords data = Inr (0x6c, 56357235818057297, 1500000000)"
    by (simp add: buildDepositInstructionData_def BROKER_ID_def)
  with h show ?thesis by blast
qed

section \<open>Key resolution\<close>

text \<open>
  Claim C3. Private-key resolution has three tiers, in strict order and without merging.
  A key passed by the caller (a non-empty string) is returned unchanged, whatever the
  configuration holds. Without one, a non-empty configured key is returned. Without
  either, a configured mnemonic is handed to the derivation exactly once and the derived
  key is returned (a failed derivation is a derivation error). With nothing configured
  the function fails with the no-credentials error. The derivation runs in the third
  case only.
\<close>

theorem getWalletPrivateKey_priority:
  "(k \<noteq> [] \<longrightarrow> getWalletPrivateKey fromPhrase (Some k) configKey mnemonic network = (Inr k, []))
 \<and> (key_absent u \<and> configKey \<noteq> [] \<longrightarrow>
      getWalletPrivateKey fromPhrase u configKey mnemonic network = (Inr configKey, []))
 \<and> (key_absent u \<and> mnemonic \<noteq> [] \<longrightarrow>
      snd (getWalletPrivateKey fromPhrase u [] mnemonic network) = [mnemonic]
      \<and> (\<forall>key. fromPhrase mnemonic = Inr key \<longrightarrow>
            fst (getWalletPrivateKey fromPhrase u [] mnemonic network) = Inr key)
      \<and> (\<forall>err. fromPhrase mnemonic = Inl err \<longrightarrow>
            fst (getWalletPrivateKey fromPhrase u [] mnemonic network)
            = Inl (Error (''Failed to derive private key from mnemonic: '' @ message err))))
 \<and> (key_absent u \<longrightarrow>
      snd (getWalletPrivateKey fromPhrase u [] [] network) = []
      \<and> (\<exists>msg. fst (getWalletPrivateKey fromPhrase u [] [] network)
                 = Inl (Error (''No wallet credentials available'' @ msg))))"
  by (auto simp add: getWalletPrivateKey_def key_absent_def Let_def split: sum.splits option.splits)

theorem getWalletPrivateKey_priority_witness:
  "''0xUSER'' \<noteq> [] \<and> key_absent None \<and> ''0xCONFIG'' \<noteq> [] \<and> ''twelve words'' \<noteq> []
   \<and> getWalletPrivateKey (\<lambda>m. Inr (''0xDERIVED:'' @ m)) (Some ''0xUSER'') ''0xCONFIG'' ''twelve words'' ''bnb''
       = (Inr ''0xUSER'', [])
   \<and> getWalletPrivateKey (\<lambda>m. Inr (''0xDERIVED:'' @ m)) None ''0xCONFIG'' ''twelve words'' ''bnb''
       = (Inr ''0xCONFIG'', [])
   \<and> getWalletPrivateKey (\<lambda>m. Inr (''0xDERIVED:'' @ m)) None [] ''twelve words'' ''bnb''
       = (Inr ''0xDERIVED:twelve words'', [''twelve words''])
   \<and> snd (getWalletPrivateKey (\<lambda>m. Inr (''0xDERIVED:'' @ m)) None [] [] ''bnb'') = []"
  using getWalletPrivateKey_priority
          [of "''0xUSER''" "\<lambda>m. Inr (''0xDERIVED:'' @ m)" "''0xCONFIG''" "''twelve words''" "''bnb''" None]
  by (simp add: key_absent_def prod_eq_iff)

section \<open>The canonical query string\<close>

lemma buildQueryString_perm:
  assumes "distinct (map fst params)" and "mset params' = mset params"
  shows "buildQueryString params' = buildQueryString params"
proof -
  have keys: "mset (map fst params') = mset (map fst params)"
    using assms(2) by (metis mset_map)
  have "sort (map fst params') = sort (map fst params)"
    by (rule properties_for_sort) (simp_all add: assms(2))
  moreover have "distinct (map fst params')"
    using keys assms(1) by (metis mset_eq_imp_distinct_iff)
  moreover have "set params' = set params"
    using assms(2) by (rule mset_eq_setD)
  ultimately have "map_of params' = map_of params"
    using assms(1) by (simp add: map_of_inject_set)
  then have "obj_get params' = obj_get params"
    by (simp add: obj_get_def fun_eq_iff)
  with \<open>sort (map fst params') = sort (map fst params)\<close> show ?thesis
    by (simp add: buildQueryString_def Object_keys_def)
qed

text \<open>
  Claim C4. For every parameter object (its keys distinct) and every permutation of the
  order in which its key-value pairs are listed, the canonical query string, built from
  the sorted keys, is the same, and so is the HMAC signature over it with a fixed secret.
\<close>

theorem buildQueryString_order_independent:
  assumes "distinct (map fst params)" and "mset params' = mset params"
  shows "buildQueryString params' = buildQueryString params
       \<and> generateHmacSignature hmac (buildQueryString params') secret
         = generateHmacSignature hmac (buildQueryString params) secret"
  using buildQueryString_perm [OF assms] by simp

theorem buildQueryString_order_independent_witness:
  "distinct (map fst [(''symbol'', JStr ''BTC USDT''), (''timestamp'', JNum 1700000000000)])
   \<and> mset [(''timestamp'', JNum 1700000000000), (''symbol'', JStr ''BTC USDT'')]
       = mset [(''symbol'', JStr ''BTC USDT''), (''timestamp'', JNum 1700000000000)]
   \<and> buildQueryString [(''timestamp'', JNum 1700000000000), (''symbol'', JStr ''BTC USDT'')]
       = ''symbol=BTC%20USDT&timestamp=1700000000000''
   \<and> buildQueryString [(''symbol'', JStr ''BTC USDT''), (''timestamp'', JNum 1700000000000)]
       = ''symbol=BTC%20USDT&timestamp=1700000000000''"
proof -
  have d: "distinct (map fst [(''symbol'', JStr ''BTC USDT''), (''timestamp'', JNum 1700000000000)])"
    by simp
  have m: "mset [(''timestamp'', JNum 1700000000000), (''symbol'', JStr ''BTC USDT'')]
             = mset [(''symbol'', JStr ''BTC USDT''), (''timestamp'', JNum 1700000000000)]"
    by (simp add: add_mset_commute)
  have v: "buildQueryString [(''symbol'', JStr ''BTC USDT''), (''timestamp'', JNum 1700000000000)]
             = ''symbol=BTC%20USDT&timestamp=1700000000000''"
    by code_simp
  from buildQueryString_order_independent [OF d m, of "\<lambda>s q. q" "''secret''"] d m v show ?thesis
    by simp
qed

section \<open>The saga\<close>

lemma map_of_json_set: "map_of (json_set kvs k v) = (map_of kvs)(k \<mapsto> v)"
  by (induction kvs) (auto simp add: fun_eq_iff)

lemma map_add_upd_left: "mp k = None \<Longrightarrow> m(k \<mapsto> v) ++ mp = m ++ mp(k \<mapsto> v)"
  by (rule ext) (simp add: map_add_def split: option.splits)

lemma map_of_spread_fold:
  "distinct (map fst p) \<Longrightarrow>
   map_of (foldl (\<lambda>acc (k, v). json_set acc k v) base p) = map_of base ++ map_of p"
proof (induction p arbitrary: base)
  case Nil
  show ?case by simp
next
  case (Cons kv p)
  obtain k v where kv: "kv = (k, v)" by (cases kv)
  from Cons.prems kv have nk: "k \<notin> fst ` set p" and dp: "distinct (map fst p)"
    by auto
  from nk have "map_of p k = None"
    by (simp add: map_of_eq_None_iff)
  then have sw: "(map_of base)(k \<mapsto> v) ++ map_of p = map_of base ++ (map_of p)(k \<mapsto> v)"
    by (rule map_add_upd_left)
  have "map_of (foldl (\<lambda>acc (k, v). json_set acc k v) base (kv # p))
        = map_of (foldl (\<lambda>acc (k, v). json_set acc k v) (json_set base k v) p)"
    by (simp add: kv)
  also have "\<dots> = map_of (json_set base k v) ++ map_of p"
    by (rule Cons.IH [OF dp])
  also have "\<dots> = (map_of base)(k \<mapsto> v) ++ map_of p"
    by (simp only: map_of_json_set)
  also have "\<dots> = map_of base ++ (map_of p)(k \<mapsto> v)"
    by (rule sw)
  also have "\<dots> = map_of base ++ map_of (kv # p)"
    by (simp add: kv)
  finally show ?case .
qed

lemma field_spread:
  assumes "distinct (map fst p)"
  shows "field (Obj (spread base (Obj p))) k
         = (if k \<in> fst ` set p then field (Obj p) k else field (Obj base) k)"
proof -
  have m: "map_of (spread base (Obj p)) k = (map_of base ++ map_of p) k"
    using assms by (simp add: spread_def map_of_spread_fold)
  show ?thesis
  proof (cases "map_of p k")
    case None
    then have "k \<notin> fst ` set p" by (simp add: map_of_eq_None_iff)
    with None m show ?thesis by (simp add: field_def map_add_def)
  next
    case (Some y)
    then have "k \<in> fst ` set p" by (metis map_of_eq_None_iff option.distinct(1))
    with Some m show ?thesis by (simp add: field_def map_add_def)
  qed
qed

lemma handleError_not_success: "\<not> json_truthy (field (handleError err) ''success'')"
  by (simp add: handleError_def field_def)

lemma failure_not_success: "\<not> json_truthy (field (failure err) ''success'')"
  by (simp add: failure_def field_def)

lemma catching_ok: "deposit_body_ok r \<Longrightarrow> deposit_payload_ok (fst (catching r))"
  by (cases "fst r")
     (simp_all add: catching_def deposit_body_ok_def deposit_payload_ok_def handleError_not_success)

lemma ok_Inl [simp]: "deposit_body_ok (Inl err, t)"
  by (simp add: deposit_body_ok_def)

lemma ok_failure [simp]: "deposit_body_ok (Inr (failure err), t)"
  by (simp add: deposit_body_ok_def deposit_payload_ok_def failure_not_success)

lemma depositSolana_ok: "deposit_payload_ok (fst (depositSolana e token amount privateKey tr))"
  unfolding depositSolana_def
  by (rule catching_ok)
     (simp add: depositSolana_body_def Let_def deposit_body_ok_def deposit_payload_ok_def field_def
           failure_def
      split: sum.splits option.splits)

lemma deposit_native_ok:
  "deposit_body_ok (deposit_native e network c amount dc rpcUrl w tr)"
  by (simp add: deposit_native_def Let_def deposit_body_ok_def deposit_payload_ok_def field_def
      split: sum.splits)

lemma deposit_erc20_deposit_ok:
  "deposit_body_ok (deposit_erc20_deposit e network token amount dc rpcUrl w t a tr)"
  by (simp add: deposit_erc20_deposit_def Let_def deposit_body_ok_def deposit_payload_ok_def field_def
      split: sum.splits)

lemma deposit_erc20_ok:
  "deposit_body_ok (deposit_erc20 e network token amount ta dc rpcUrl w tr)"
  by (simp add: deposit_erc20_def Let_def deposit_erc20_deposit_ok split: sum.splits option.splits)

lemma deposit_body_ok: "deposit_body_ok (deposit_body e network token amount privateKey tr)"
proof -
  have s: "deposit_body_ok (Inr (fst (depositSolana e token amount privateKey tr)),
                            snd (depositSolana e token amount privateKey tr))"
    using depositSolana_ok [of e token amount privateKey tr] by (simp add: deposit_body_ok_def)
  show ?thesis
    by (simp add: deposit_body_def Let_def s deposit_native_ok deposit_erc20_ok case_prod_beta
        split: sum.splits option.splits)
qed

lemma deposit_success_payload: "deposit_payload_ok (fst (deposit e network token amount privateKey tr))"
  unfolding deposit_def by (rule catching_ok) (rule deposit_body_ok)

text \<open>
  Claim C1. In the swap-and-bridge workflow, when the deposit step succeeds and the
  market-buy step fails, the workflow halts: it returns, with the trace as the market buy
  left it, a failure whose \<open>failedAt\<close> is \<open>"swap"\<close> and whose partial results hold
  exactly one step, the deposit (step 1, action \<open>deposit\<close>, with the fields of the
  deposit result). The withdraw step is not attempted: the outcome is the same whatever
  function stands for it.
\<close>

theorem swapAndBridge_buy_failure:
  assumes dep: "deposit e fromNetwork fromToken fromAmount privateKey tr = (depositResult, tr1)"
      and dok: "json_truthy (field depositResult ''success'')"
      and buy: "marketBuy e this (toUpperCase (targetToken @ fromToken)) fromAmount tr1 = (swapResult, tr2)"
      and bfail: "\<not> json_truthy (field swapResult ''success'')"
  shows "\<exists>result step.
           swapAndBridge e this fromNetwork fromToken fromAmount targetToken toNetwork toAddress privateKey tr
             = (result, tr2)
         \<and> (\<forall>this_withdraw.
               swapAndBridge_steps (deposit e) (marketBuy e this) this_withdraw
                 fromNetwork fromToken fromAmount targetToken toNetwork toAddress privateKey tr
               = (Inr result, tr2))
         \<and> field result ''success'' = jbool False
         \<and> field result ''failedAt'' = jstr ''swap''
         \<and> field result ''error'' = jstr (''Swap failed: '' @ json_String (field swapResult ''error''))
         \<and> field (field result ''partialResults'') ''steps'' = Arr [step]
         \<and> field step ''step'' = jnum 1
         \<and> field step ''action'' = jstr ''deposit''
         \<and> (\<forall>k. k \<noteq> ''step'' \<and> k \<noteq> ''action'' \<longrightarrow>
                field step k = field (field depositResult ''deposit'') k)"
proof -
  from deposit_success_payload [of e fromNetwork fromToken fromAmount privateKey tr] dep dok
  obtain p where p: "field depositResult ''deposit'' = Obj p" "distinct (map fst p)"
      "''step'' \<notin> fst ` set p" "''action'' \<notin> fst ` set p"
    by (auto simp add: deposit_payload_ok_def)
  let ?step = "Obj (spread [(''step'', jnum 1), (''action'', jstr ''deposit'')] (Obj p))"
  let ?result = "Obj [(''success'', jbool False),
                      (''error'', jstr (''Swap failed: '' @ json_String (field swapResult ''error''))),
                      (''failedAt'', jstr ''swap''),
                      (''partialResults'', Obj [(''success'', jbool True), (''steps'', Arr [?step])])]"
  have steps: "swapAndBridge_steps (deposit e) (marketBuy e this) w
                 fromNetwork fromToken fromAmount targetToken toNetwork toAddress privateKey tr
               = (Inr ?result, tr2)" for w
    by (simp add: swapAndBridge_steps_def dep dok buy bfail p(1) getprop_def Let_def)
  have whole: "swapAndBridge e this fromNetwork fromToken fromAmount targetToken toNetwork toAddress
                 privateKey tr = (?result, tr2)"
    by (simp add: swapAndBridge_def steps catching_def)
  have f1: "field ?step ''step'' = jnum 1"
    using p by (simp add: field_spread) (simp add: field_def)
  have f2: "field ?step ''action'' = jstr ''deposit''"
    using p by (simp add: field_spread) (simp add: field_def)
  have f3: "field ?step k = field (field depositResult ''deposit'') k"
    if k: "k \<noteq> ''step'' \<and> k \<noteq> ''action''" for k
  proof (cases "k \<in> fst ` set p")
    case True
    with p(2) show ?thesis by (simp add: field_spread p(1))
  next
    case False
    then have "map_of p k = None" by (simp add: map_of_eq_None_iff)
    with False p(2) k show ?thesis by (simp add: field_spread p(1)) (simp add: field_def)
  qed
  have r1: "field ?result ''success'' = jbool False"
    by (simp add: field_def)
  have r2: "field ?result ''failedAt'' = jstr ''swap''"
    by (simp add: field_def)
  have r3: "field ?result ''error'' = jstr (''Swap failed: '' @ json_String (field swapResult ''error''))"
    by (simp add: field_def)
  have r4: "field (field ?result ''partialResults'') ''steps'' = Arr [?step]"
    by (simp add: field_def)
  from whole steps r1 r2 r3 r4 f1 f2 f3 show ?thesis
    by blast
qed

theorem swapAndBridge_buy_failure_witness:
  "json_truthy (field (fst (deposit demo_env_order_rejected ''bnb'' ''USDT'' (JStr ''2'') None [])) ''success'')
   \<and> \<not> json_truthy (field (fst (marketBuy demo_env_order_rejected demo_api ''ASTERUSDT'' (JStr ''2'')
                                  (snd (deposit demo_env_order_rejected ''bnb'' ''USDT'' (JStr ''2'') None []))))
                           ''success'')
   \<and> field (fst (swapAndBridge demo_env_order_rejected demo_api ''bnb'' ''USDT'' (JStr ''2'') ''ASTER''
                      ''arbitrum'' (JStr ''0xAbC1'') None [])) ''failedAt'' = jstr ''swap''
   \<and> snd (swapAndBridge demo_env_order_rejected demo_api ''bnb'' ''USDT'' (JStr ''2'') ''ASTER''
             ''arbitrum'' (JStr ''0xAbC1'') None [])
       = snd (marketBuy demo_env_order_rejected demo_api ''ASTERUSDT'' (JStr ''2'')
                (snd (deposit demo_env_order_rejected ''bnb'' ''USDT'' (JStr ''2'') None [])))"
proof -
  let ?e = demo_env_order_rejected
  let ?d = "deposit ?e ''bnb'' ''USDT'' (JStr ''2'') None []"
  let ?m = "marketBuy ?e demo_api ''ASTERUSDT'' (JStr ''2'') (snd ?d)"
  have u: "toUpperCase ''ASTERUSDT'' = ''ASTERUSDT''"
    by code_simp
  have h1: "?d = (fst ?d, snd ?d)"
    by simp
  have h2: "json_truthy (field (fst ?d) ''success'')"
    by code_simp
  have h3: "marketBuy ?e demo_api (toUpperCase (''ASTER'' @ ''USDT'')) (JStr ''2'') (snd ?d) = (fst ?m, snd ?m)"
    by (simp add: u)
  have h4: "\<not> json_truthy (field (fst ?m) ''success'')"
    by code_simp
  from swapAndBridge_buy_failure [OF h1 h2 h3 h4, of "''arbitrum''" "JStr ''0xAbC1''"]
  obtain result where
    "swapAndBridge ?e demo_api ''bnb'' ''USDT'' (JStr ''2'') ''ASTER'' ''arbitrum'' (JStr ''0xAbC1'') None []
       = (result, snd ?m)"
    and "field result ''failedAt'' = jstr ''swap''"
    by blast
  with h2 h4 show ?thesis
    by simp
qed

section \<open>Signed requests and withdrawals\<close>

lemma withdraw_to_submit:
  assumes "withdraw_quoted e this network token amount privateKey tr signingKey receiver fee tr1"
  shows "withdraw e this network token amount toAddress privateKey tr
         = catching (withdraw_submit e this network (chainId_of (toLowerCase network)) (toUpperCase token)
                       amount signingKey receiver (js_or toAddress (JStr receiver)) fee tr1)"
  using assms
  by (auto simp add: withdraw_quoted_def withdraw_def withdraw_body_def withdraw_signed_def Let_def
        case_prod_beta)

lemma times_number_exact: "\<bar>a * b\<bar> \<le> 2 ^ 53 \<Longrightarrow> times_number a b = a * b"
  by (simp add: times_number_def)

lemma signature_ok:
  assumes "Wallet_address e signingKey = Inr receiver"
      and "js_or (p_destination ps) (p_receiver ps) = JStr d"
      and "getAddress e (toLowerCase d) = Inr nd"
      and "signTypedData e signingKey
             \<lparr> dom_name = ''Aster'', dom_version = ''1'', dom_chainId = parseInt (p_chainId ps),
               dom_verifyingContract = ZeroAddress \<rparr>
             \<lparr> act_type = ''Withdraw'', act_destination = nd,
               act_destination_Chain = (case map_of chainNames (p_chainId ps) of Some n \<Rightarrow> n | None \<Rightarrow> ''ETH''),
               act_token = p_token ps, act_amount = p_amount ps, act_fee = p_fee ps,
               act_nonce = p_nonce ps, act_aster_chain = ''Mainnet'' \<rparr> = Inr sig"
  shows "generateEIP712Signature e ps signingKey tr
         = (Inr sig,
            tr @ [SignTypedData signingKey
                    \<lparr> dom_name = ''Aster'', dom_version = ''1'', dom_chainId = parseInt (p_chainId ps),
                      dom_verifyingContract = ZeroAddress \<rparr>
                    \<lparr> act_type = ''Withdraw'', act_destination = nd,
                      act_destination_Chain = (case map_of chainNames (p_chainId ps) of Some n \<Rightarrow> n | None \<Rightarrow> ''ETH''),
                      act_token = p_token ps, act_amount = p_amount ps, act_fee = p_fee ps,
                      act_nonce = p_nonce ps, act_aster_chain = ''Mainnet'' \<rparr>])"
  using assms by (simp add: generateEIP712Signature_def Let_def)

lemma signed_request_trace:
  assumes "opt_signed options" and "opt_apiKey options \<noteq> []" and "opt_apiSecret options \<noteq> []"
  shows "snd (makeApiRequest e options tr)
         = snd (requestParams_of e options tr)
           @ [Http (request_config e options (fst (requestParams_of e options tr)))]"
  using assms by (simp add: makeApiRequest_def case_prod_beta Let_def)

lemma requestParams_truthy_timestamp:
  assumes "opt_signed options" and "truthy (obj_get (opt_params options) ''timestamp'')"
  shows "snd (requestParams_of e options tr) = tr"
    and "obj_get (fst (requestParams_of e options tr)) ''timestamp'' = obj_get (opt_params options) ''timestamp''"
    and "fst (requestParams_of e options tr)
         = (if truthy (obj_get (opt_params options) ''recvWindow'') then opt_params options
            else obj_set (opt_params options) ''recvWindow'' (opt_recvWindow options))"
proof -
  have g: "obj_get (obj_set ob ''recvWindow'' v) ''timestamp'' = obj_get ob ''timestamp''" for ob v
    by (induction ob) (auto simp add: obj_get_def)
  show "snd (requestParams_of e options tr) = tr"
    using assms by (simp add: requestParams_of_def Let_def)
  show "obj_get (fst (requestParams_of e options tr)) ''timestamp'' = obj_get (opt_params options) ''timestamp''"
    using assms by (simp add: requestParams_of_def Let_def g)
  show "fst (requestParams_of e options tr)
         = (if truthy (obj_get (opt_params options) ''recvWindow'') then opt_params options
            else obj_set (opt_params options) ''recvWindow'' (opt_recvWindow options))"
    using assms by (simp add: requestParams_of_def Let_def)
qed

lemma obj_get_obj_set: "obj_get (obj_set ob k v) k' = (if k' = k then v else obj_get ob k')"
  by (induction ob) (auto simp add: obj_get_def)

lemma requestParams_falsy_timestamp:
  assumes "opt_signed options" and "\<not> truthy (obj_get (opt_params options) ''timestamp'')"
  shows "snd (requestParams_of e options tr) = tr @ [DateNow]"
    and "obj_get (fst (requestParams_of e options tr)) ''timestamp'' = JNum (date_now e tr)"
  using assms by (simp_all add: requestParams_of_def Let_def obj_get_obj_set)

lemma snd_api_case:
  "snd (case r of
          (ApiFailure err, t) \<Rightarrow> (f err, t)
        | (ApiSuccess None h, t) \<Rightarrow> (g h, t)
        | (ApiSuccess (Some dd) h, t) \<Rightarrow> (k dd h, t)) = snd r"
  by (cases r) (simp split: api_result.splits option.splits)

lemma withdraw_submit_trace:
  assumes creds: "asterApiKey this \<noteq> []" "asterApiSecret this \<noteq> []"
      and w: "Wallet_address e signingKey = Inr receiver"
      and d: "js_or destination (JStr receiver) = JStr d"
      and nd: "getAddress e (toLowerCase d) = Inr nd"
      and sg: "\<forall>dom val. \<exists>sig. signTypedData e signingKey dom val = Inr sig"
  shows "\<exists>dom val rp pre.
           snd (withdraw_submit e this network chainId tokenUpper amount signingKey receiver
                  destination fee tr)
           = tr @ [DateNow, SignTypedData signingKey dom val] @ pre
               @ [Http \<lparr> cfg_method = ''POST'',
                          cfg_url = asterBaseUrl this @ ''/api/v1/aster/user-withdraw'',
                          cfg_headers = [(''Content-Type'', ''application/x-www-form-urlencoded''),
                                         (''X-MBX-APIKEY'', asterApiKey this)],
                          cfg_data = Some (buildQueryString rp @ ''&signature=''
                                           @ hmac_sha256_hex e (asterApiSecret this) (buildQueryString rp)) \<rparr>]
         \<and> (date_now e tr \<noteq> 0 \<longrightarrow> pre = [] \<and> obj_get rp ''timestamp'' = JNum (date_now e tr))
         \<and> (date_now e tr = 0 \<longrightarrow> pre = [DateNow])
         \<and> act_destination val = nd
         \<and> act_nonce val = times_number (date_now e tr) 1000
         \<and> Object_keys rp = [''chainId'', ''asset'', ''amount'', ''fee'', ''receiver'', ''nonce'',
                               ''userSignature'', ''timestamp'', ''recvWindow'']
         \<and> obj_get rp ''nonce'' = JStr (int_toString (times_number (date_now e tr) 1000))
         \<and> obj_get rp ''receiver'' = JStr receiver"
proof -
  let ?t = "date_now e tr"
  let ?n = "times_number ?t 1000"
  let ?ps = "\<lparr> p_chainId = js_String chainId, p_destination = destination,
                p_receiver = JStr receiver, p_token = tokenUpper, p_amount = js_String amount,
                p_fee = json_String fee, p_nonce = ?n \<rparr>"
  let ?dom = "\<lparr> dom_name = ''Aster'', dom_version = ''1'', dom_chainId = parseInt (p_chainId ?ps),
                 dom_verifyingContract = ZeroAddress \<rparr>"
  let ?val = "\<lparr> act_type = ''Withdraw'', act_destination = nd,
                 act_destination_Chain = (case map_of chainNames (p_chainId ?ps) of Some n \<Rightarrow> n | None \<Rightarrow> ''ETH''),
                 act_token = p_token ?ps, act_amount = p_amount ?ps, act_fee = p_fee ?ps,
                 act_nonce = p_nonce ?ps, act_aster_chain = ''Mainnet'' \<rparr>"
  from sg obtain sig where sig: "signTypedData e signingKey ?dom ?val = Inr sig"
    by blast
  let ?tr2 = "tr @ [DateNow, SignTypedData signingKey ?dom ?val]"
  have g: "generateEIP712Signature e ?ps signingKey (tr @ [DateNow]) = (Inr sig, ?tr2)"
    using signature_ok [OF w _ nd sig, of "tr @ [DateNow]"] d by simp
  let ?wp = "\<lambda>ts. [(''chainId'', chainId), (''asset'', JStr tokenUpper), (''amount'', JStr (js_String amount)),
              (''fee'', JStr (json_String fee)), (''receiver'', JStr receiver),
              (''nonce'', JStr (int_toString ?n)),
              (''userSignature'', JStr sig), (''timestamp'', JNum ts)]"
  let ?ts = "if ?t = 0 then date_now e ?tr2 else ?t"
  let ?pre = "if ?t = 0 then [DateNow] else []"
  let ?rp = "?wp ?ts @ [(''recvWindow'', recvWindow this)]"
  let ?opts = "\<lparr> opt_baseUrl = asterBaseUrl this, opt_endpoint = ''/api/v1/aster/user-withdraw'',
                  opt_method = ''POST'', opt_params = ?wp ?t, opt_signed = True,
                  opt_apiKey = asterApiKey this, opt_apiSecret = asterApiSecret this,
                  opt_recvWindow = recvWindow this \<rparr>"
  have rp: "requestParams_of e ?opts ?tr2 = (?rp, ?tr2 @ ?pre)"
    by (simp add: requestParams_of_def Let_def obj_get_def)
  have cfg: "request_config e ?opts ?rp
             = \<lparr> cfg_method = ''POST'',
                 cfg_url = asterBaseUrl this @ ''/api/v1/aster/user-withdraw'',
                 cfg_headers = [(''Content-Type'', ''application/x-www-form-urlencoded''),
                                (''X-MBX-APIKEY'', asterApiKey this)],
                 cfg_data = Some (buildQueryString ?rp @ ''&signature=''
                                  @ hmac_sha256_hex e (asterApiSecret this) (buildQueryString ?rp)) \<rparr>"
    using creds by (simp add: request_config_def Let_def generateHmacSignature_def)
  have api: "snd (asterApiRequest e this ''/api/v1/aster/user-withdraw'' ''POST'' (?wp ?t) True ?tr2)
             = ?tr2 @ ?pre @ [Http (request_config e ?opts ?rp)]"
  proof (cases "?t = 0")
    case True
    with creds rp show ?thesis
      by (simp add: asterApiRequest_def makeApiRequest_def Let_def)
  next
    case False
    with creds rp show ?thesis
      by (simp add: asterApiRequest_def makeApiRequest_def Let_def)
  qed
  have "snd (withdraw_submit e this network chainId tokenUpper amount signingKey receiver
               destination fee tr)
        = ?tr2 @ ?pre @ [Http (request_config e ?opts ?rp)]"
    using api by (simp add: withdraw_submit_def Let_def g snd_api_case)
  moreover have "Object_keys ?rp = [''chainId'', ''asset'', ''amount'', ''fee'', ''receiver'', ''nonce'',
                               ''userSignature'', ''timestamp'', ''recvWindow'']"
    by (simp add: Object_keys_def)
  moreover have "?t \<noteq> 0 \<longrightarrow> obj_get ?rp ''timestamp'' = JNum ?t"
    by (simp add: obj_get_def)
  moreover have "obj_get ?rp ''nonce'' = JStr (int_toString ?n)"
    by (simp add: obj_get_def)
  moreover have "obj_get ?rp ''receiver'' = JStr receiver"
    by (simp add: obj_get_def)
  ultimately show ?thesis
    unfolding cfg
    by (intro exI [of _ ?dom] exI [of _ ?val] exI [of _ ?rp] exI [of _ ?pre]) simp
qed

lemma demo_withdraw_quoted:
  "withdraw_quoted demo_env demo_api ''bnb'' ''ASTER'' (JStr ''7.5'') None [] ''0xKEY'' ''0xAbC1''
     (jstr ''0.25'') (snd (getWithdrawFee demo_env demo_api ''ASTER'' ''bnb'' []))"
  by code_simp

lemma demo_clock_after_quote:
  "date_now demo_env (snd (getWithdrawFee demo_env demo_api ''ASTER'' ''bnb'' [])) = 1700000000002"
  by code_simp

lemma demo_getAddress: "getAddress demo_env (toLowerCase ''0xAbC1'') = Inr ''0xAbC1''"
  by code_simp

lemma demo_signs: "\<forall>dom val. \<exists>sig. signTypedData demo_env ''0xKEY'' dom val = Inr sig"
  by (simp add: demo_env_def)

lemma makeApiRequest_outcome:
  assumes "\<not> credentials_missing options"
  shows "fst (makeApiRequest e options tr)
         = (case axios_outcome e options tr of
              Response data headers \<Rightarrow> ApiSuccess data headers
            | ErrorResponse status data msg \<Rightarrow> ApiFailure (response_error status data msg)
            | NoResponse msg \<Rightarrow> ApiFailure (other_error msg))"
  using assms
  by (auto simp add: makeApiRequest_def credentials_missing_def axios_outcome_def case_prod_beta Let_def)

text \<open>
  Claim C5, as the code has it. A signed request whose API key or API secret is empty
  fails at once: no HTTP call is issued and the clock is not read. The result is the
  failure \<open>{message, type: 'NetworkError'}\<close> with the credentials message. A request
  that reaches \<open>axios\<close> and gets no response fails with the same variant,
  \<open>{message, type: 'NetworkError'}\<close>, and differs in the message only; a request that
  the exchange rejects fails with \<open>{code, message, httpStatus}\<close>, which has no type tag
  and is never the credentials failure.
\<close>

theorem missing_credentials_no_request:
  assumes "credentials_missing options"
  shows "makeApiRequest e options tr
           = (ApiFailure (Obj [(''message'', jstr credentials_message), (''type'', jstr ''NetworkError'')]), tr)
       \<and> (\<forall>e' options' tr' msg.
             \<not> credentials_missing options' \<and> axios_outcome e' options' tr' = NoResponse msg \<longrightarrow>
             fst (makeApiRequest e' options' tr')
             = ApiFailure (Obj [(''message'', jstr msg), (''type'', jstr ''NetworkError'')]))
       \<and> (\<forall>e' options' tr' status data msg.
             \<not> credentials_missing options'
             \<and> axios_outcome e' options' tr' = ErrorResponse status data msg \<longrightarrow>
             (\<exists>err. fst (makeApiRequest e' options' tr') = ApiFailure err
                    \<and> field err ''httpStatus'' = jnum status
                    \<and> field err ''type'' = jundefined
                    \<and> err \<noteq> Obj [(''message'', jstr credentials_message),
                                 (''type'', jstr ''NetworkError'')]))"
proof (intro conjI allI impI)
  from assms show "makeApiRequest e options tr
           = (ApiFailure (Obj [(''message'', jstr credentials_message), (''type'', jstr ''NetworkError'')]), tr)"
    by (simp add: makeApiRequest_def credentials_missing_def other_error_def credentials_message_def)
next
  fix e' options' tr' msg
  assume "\<not> credentials_missing options' \<and> axios_outcome e' options' tr' = NoResponse msg"
  then show "fst (makeApiRequest e' options' tr')
             = ApiFailure (Obj [(''message'', jstr msg), (''type'', jstr ''NetworkError'')])"
    by (simp add: makeApiRequest_outcome other_error_def)
next
  fix e' options' tr' status data msg
  assume "\<not> credentials_missing options' \<and> axios_outcome e' options' tr' = ErrorResponse status data msg"
  then have "fst (makeApiRequest e' options' tr') = ApiFailure (response_error status data msg)"
    by (simp add: makeApiRequest_outcome)
  moreover have "field (response_error status data msg) ''httpStatus'' = jnum status"
    by (simp add: response_error_def field_def)
  moreover have "field (response_error status data msg) ''type'' = jundefined"
    by (simp add: response_error_def field_def)
  moreover have "response_error status data msg
                 \<noteq> Obj [(''message'', jstr credentials_message), (''type'', jstr ''NetworkError'')]"
    by (simp add: response_error_def)
  ultimately show "\<exists>err. fst (makeApiRequest e' options' tr') = ApiFailure err
                    \<and> field err ''httpStatus'' = jnum status
                    \<and> field err ''type'' = jundefined
                    \<and> err \<noteq> Obj [(''message'', jstr credentials_message),
                                 (''type'', jstr ''NetworkError'')]"
    by blast
qed

theorem missing_credentials_no_request_witness:
  "credentials_missing (demo_options \<lparr> opt_apiKey := [] \<rparr>)
   \<and> makeApiRequest demo_env (demo_options \<lparr> opt_apiKey := [] \<rparr>) []
       = (ApiFailure (Obj [(''message'', jstr credentials_message), (''type'', jstr ''NetworkError'')]), [])
   \<and> \<not> credentials_missing demo_options
   \<and> axios_outcome demo_env_offline demo_options [] = NoResponse ''connect ECONNREFUSED''
   \<and> fst (makeApiRequest demo_env_offline demo_options [])
       = ApiFailure (Obj [(''message'', jstr ''connect ECONNREFUSED''), (''type'', jstr ''NetworkError'')])
   \<and> axios_outcome demo_env_order_rejected
        (demo_options \<lparr> opt_endpoint := ''/api/v1/order'', opt_method := ''POST'' \<rparr>) []
       = ErrorResponse 400 (Some [(''code'', JNum (- 2010)), (''msg'', JStr ''Insufficient balance'')])
           ''Request failed with status code 400''
   \<and> (\<exists>err. fst (makeApiRequest demo_env_order_rejected
                    (demo_options \<lparr> opt_endpoint := ''/api/v1/order'', opt_method := ''POST'' \<rparr>) [])
              = ApiFailure err
            \<and> field err ''httpStatus'' = jnum 400 \<and> field err ''type'' = jundefined)"
proof -
  let ?P = "demo_options \<lparr> opt_endpoint := ''/api/v1/order'', opt_method := ''POST'' \<rparr>"
  have h: "credentials_missing (demo_options \<lparr> opt_apiKey := [] \<rparr>)"
    by (simp add: demo_options_def credentials_missing_def)
  have n: "\<not> credentials_missing demo_options" "\<not> credentials_missing ?P"
    by (simp_all add: demo_options_def credentials_missing_def)
  have o1: "axios_outcome demo_env_offline demo_options [] = NoResponse ''connect ECONNREFUSED''"
    by (simp add: axios_outcome_def demo_env_offline_def)
  have o2: "axios_outcome demo_env_order_rejected ?P []
            = ErrorResponse 400 (Some [(''code'', JNum (- 2010)), (''msg'', JStr ''Insufficient balance'')])
                ''Request failed with status code 400''"
    by code_simp
  note T = missing_credentials_no_request [OF h, of demo_env "[]"]
  from T have t1: "makeApiRequest demo_env (demo_options \<lparr> opt_apiKey := [] \<rparr>) []
       = (ApiFailure (Obj [(''message'', jstr credentials_message), (''type'', jstr ''NetworkError'')]), [])"
    by blast
  from T n(1) o1 have t2: "fst (makeApiRequest demo_env_offline demo_options [])
       = ApiFailure (Obj [(''message'', jstr ''connect ECONNREFUSED''), (''type'', jstr ''NetworkError'')])"
    by blast
  from T n(2) o2 have t3: "\<exists>err. fst (makeApiRequest demo_env_order_rejected ?P []) = ApiFailure err
            \<and> field err ''httpStatus'' = jnum 400 \<and> field err ''type'' = jundefined"
    by blast
  from h t1 n(1) o1 t2 o2 t3 show ?thesis
    by blast
qed

text \<open>
  The claim as written fails: the result of a request without credentials and the result
  of a request that could not reach the exchange are the same variant, with the type tag
  \<open>NetworkError\<close>.
\<close>

theorem missing_credentials_kind_counterexample:
  "fst (makeApiRequest demo_env_offline (demo_options \<lparr> opt_apiKey := [] \<rparr>) [])
     = ApiFailure (Obj [(''message'', jstr ''API credentials not configured. API key and secret are required for signed requests''),
                        (''type'', jstr ''NetworkError'')])
   \<and> fst (makeApiRequest demo_env_offline demo_options [])
     = ApiFailure (Obj [(''message'', jstr ''connect ECONNREFUSED''),
                        (''type'', jstr ''NetworkError'')])"
  by code_simp

text \<open>
  Claim C9, as the code has it. A signed request (with credentials) keeps the caller's
  \<open>timestamp\<close> when that value is truthy: it is the value in the signed canonical query,
  and the clock is not read. When the caller's value is missing or falsy (\<open>0\<close>, the empty
  string, \<open>null\<close>), the clock is read once and its value is signed. A withdrawal that
  reaches the signature reads the clock once; when that reading \<open>t\<close> is not zero and
  \<open>t * 1000\<close> is at most \<open>2^53\<close>, the typed data carries the nonce \<open>t * 1000\<close> and the
  signed request carries \<open>timestamp = t\<close> and \<open>nonce = t * 1000\<close>.
\<close>

theorem signed_request_timestamp:
  "(opt_signed options \<and> opt_apiKey options \<noteq> [] \<and> opt_apiSecret options \<noteq> [] \<longrightarrow>
      (\<exists>rp. (truthy (obj_get (opt_params options) ''timestamp'') \<longrightarrow>
                snd (makeApiRequest e options tr) = tr @ [Http (request_config e options rp)]
                \<and> obj_get rp ''timestamp'' = obj_get (opt_params options) ''timestamp'')
           \<and> (\<not> truthy (obj_get (opt_params options) ''timestamp'') \<longrightarrow>
                snd (makeApiRequest e options tr) = tr @ [DateNow, Http (request_config e options rp)]
                \<and> obj_get rp ''timestamp'' = JNum (date_now e tr))
           \<and> (opt_method options = ''GET'' \<or> opt_method options = ''DELETE'' \<longrightarrow>
                cfg_url (request_config e options rp)
                = opt_baseUrl options @ opt_endpoint options @ ''?'' @ buildQueryString rp @ ''&signature=''
                  @ hmac_sha256_hex e (opt_apiSecret options) (buildQueryString rp))
           \<and> (opt_method options = ''POST'' \<or> opt_method options = ''PUT'' \<longrightarrow>
                cfg_data (request_config e options rp)
                = Some (buildQueryString rp @ ''&signature=''
                        @ hmac_sha256_hex e (opt_apiSecret options) (buildQueryString rp)))))
   \<and> (withdraw_quoted e this network token amount privateKey tr0 signingKey receiver fee tr1
        \<and> asterApiKey this \<noteq> [] \<and> asterApiSecret this \<noteq> []
        \<and> js_or toAddress (JStr receiver) = JStr d \<and> getAddress e (toLowerCase d) = Inr nd
        \<and> (\<forall>dom val. \<exists>sig. signTypedData e signingKey dom val = Inr sig)
        \<and> date_now e tr1 \<noteq> 0 \<and> \<bar>date_now e tr1 * 1000\<bar> \<le> 2 ^ 53 \<longrightarrow>
      (\<exists>dom val rp.
          snd (withdraw e this network token amount toAddress privateKey tr0)
          = tr1 @ [DateNow, SignTypedData signingKey dom val,
                   Http \<lparr> cfg_method = ''POST'',
                          cfg_url = asterBaseUrl this @ ''/api/v1/aster/user-withdraw'',
                          cfg_headers = [(''Content-Type'', ''application/x-www-form-urlencoded''),
                                         (''X-MBX-APIKEY'', asterApiKey this)],
                          cfg_data = Some (buildQueryString rp @ ''&signature=''
                                           @ hmac_sha256_hex e (asterApiSecret this) (buildQueryString rp)) \<rparr>]
          \<and> act_nonce val = date_now e tr1 * 1000
          \<and> obj_get rp ''timestamp'' = JNum (date_now e tr1)
          \<and> obj_get rp ''nonce'' = JStr (int_toString (date_now e tr1 * 1000))))"
proof (intro conjI impI)
  assume a: "opt_signed options \<and> opt_apiKey options \<noteq> [] \<and> opt_apiSecret options \<noteq> []"
  let ?rp = "fst (requestParams_of e options tr)"
  have tr: "snd (makeApiRequest e options tr)
            = snd (requestParams_of e options tr) @ [Http (request_config e options ?rp)]"
    using a by (simp add: signed_request_trace)
  have c1: "truthy (obj_get (opt_params options) ''timestamp'') \<longrightarrow>
              snd (makeApiRequest e options tr) = tr @ [Http (request_config e options ?rp)]
              \<and> obj_get ?rp ''timestamp'' = obj_get (opt_params options) ''timestamp''"
    using a by (simp add: tr requestParams_truthy_timestamp(1,2))
  have c2: "\<not> truthy (obj_get (opt_params options) ''timestamp'') \<longrightarrow>
              snd (makeApiRequest e options tr) = tr @ [DateNow, Http (request_config e options ?rp)]
              \<and> obj_get ?rp ''timestamp'' = JNum (date_now e tr)"
    using a by (simp add: tr requestParams_falsy_timestamp)
  have c3: "opt_method options = ''GET'' \<or> opt_method options = ''DELETE'' \<longrightarrow>
              cfg_url (request_config e options ?rp)
              = opt_baseUrl options @ opt_endpoint options @ ''?'' @ buildQueryString ?rp @ ''&signature=''
                @ hmac_sha256_hex e (opt_apiSecret options) (buildQueryString ?rp)"
    using a by (auto simp add: request_config_def Let_def generateHmacSignature_def)
  have c4: "opt_method options = ''POST'' \<or> opt_method options = ''PUT'' \<longrightarrow>
              cfg_data (request_config e options ?rp)
              = Some (buildQueryString ?rp @ ''&signature=''
                      @ hmac_sha256_hex e (opt_apiSecret options) (buildQueryString ?rp))"
    using a by (auto simp add: request_config_def Let_def generateHmacSignature_def)
  from c1 c2 c3 c4
  show "\<exists>rp. (truthy (obj_get (opt_params options) ''timestamp'') \<longrightarrow>
                snd (makeApiRequest e options tr) = tr @ [Http (request_config e options rp)]
                \<and> obj_get rp ''timestamp'' = obj_get (opt_params options) ''timestamp'')
           \<and> (\<not> truthy (obj_get (opt_params options) ''timestamp'') \<longrightarrow>
                snd (makeApiRequest e options tr) = tr @ [DateNow, Http (request_config e options rp)]
                \<and> obj_get rp ''timestamp'' = JNum (date_now e tr))
           \<and> (opt_method options = ''GET'' \<or> opt_method options = ''DELETE'' \<longrightarrow>
                cfg_url (request_config e options rp)
                = opt_baseUrl options @ opt_endpoint options @ ''?'' @ buildQueryString rp @ ''&signature=''
                  @ hmac_sha256_hex e (opt_apiSecret options) (buildQueryString rp))
           \<and> (opt_method options = ''POST'' \<or> opt_method options = ''PUT'' \<longrightarrow>
                cfg_data (request_config e options rp)
                = Some (buildQueryString rp @ ''&signature=''
                        @ hmac_sha256_hex e (opt_apiSecret options) (buildQueryString rp)))"
    by (intro exI [of _ ?rp]) blast
next
  assume b: "withdraw_quoted e this network token amount privateKey tr0 signingKey receiver fee tr1
        \<and> asterApiKey this \<noteq> [] \<and> asterApiSecret this \<noteq> []
        \<and> js_or toAddress (JStr receiver) = JStr d \<and> getAddress e (toLowerCase d) = Inr nd
        \<and> (\<forall>dom val. \<exists>sig. signTypedData e signingKey dom val = Inr sig)
        \<and> date_now e tr1 \<noteq> 0 \<and> \<bar>date_now e tr1 * 1000\<bar> \<le> 2 ^ 53"
  then have q: "withdraw_quoted e this network token amount privateKey tr0 signingKey receiver fee tr1"
    and creds: "asterApiKey this \<noteq> []" "asterApiSecret this \<noteq> []"
    and d: "js_or toAddress (JStr receiver) = JStr d" and nd: "getAddress e (toLowerCase d) = Inr nd"
    and sg: "\<forall>dom val. \<exists>sig. signTypedData e signingKey dom val = Inr sig"
    and t0: "date_now e tr1 \<noteq> 0" and tb: "\<bar>date_now e tr1 * 1000\<bar> \<le> 2 ^ 53"
    by simp_all
  from q have w: "Wallet_address e signingKey = Inr receiver"
    by (simp add: withdraw_quoted_def)
  have tn: "times_number (date_now e tr1) 1000 = date_now e tr1 * 1000"
    using tb by (rule times_number_exact)
  have "js_or (js_or toAddress (JStr receiver)) (JStr receiver) = js_or toAddress (JStr receiver)"
    by (simp add: js_or_def)
  with d have d': "js_or (js_or toAddress (JStr receiver)) (JStr receiver) = JStr d"
    by simp
  from withdraw_submit_trace
         [where destination = "js_or toAddress (JStr receiver)" and network = network
            and chainId = "chainId_of (toLowerCase network)" and tokenUpper = "toUpperCase token"
            and amount = amount and fee = fee and tr = tr1, OF creds w d' nd sg]
  obtain dom val rp pre where
    s: "snd (withdraw_submit e this network (chainId_of (toLowerCase network)) (toUpperCase token)
               amount signingKey receiver (js_or toAddress (JStr receiver)) fee tr1)
        = tr1 @ [DateNow, SignTypedData signingKey dom val] @ pre
            @ [Http \<lparr> cfg_method = ''POST'',
                       cfg_url = asterBaseUrl this @ ''/api/v1/aster/user-withdraw'',
                       cfg_headers = [(''Content-Type'', ''application/x-www-form-urlencoded''),
                                      (''X-MBX-APIKEY'', asterApiKey this)],
                       cfg_data = Some (buildQueryString rp @ ''&signature=''
                                        @ hmac_sha256_hex e (asterApiSecret this) (buildQueryString rp)) \<rparr>]"
    and p: "date_now e tr1 \<noteq> 0 \<longrightarrow> pre = [] \<and> obj_get rp ''timestamp'' = JNum (date_now e tr1)"
    and n: "act_nonce val = times_number (date_now e tr1) 1000"
           "obj_get rp ''nonce'' = JStr (int_toString (times_number (date_now e tr1) 1000))"
    by blast
  have "snd (withdraw e this network token amount toAddress privateKey tr0)
        = snd (withdraw_submit e this network (chainId_of (toLowerCase network)) (toUpperCase token)
                 amount signingKey receiver (js_or toAddress (JStr receiver)) fee tr1)"
    by (simp add: withdraw_to_submit [OF q] catching_def)
  with s p n t0 tn
  show "\<exists>dom val rp.
          snd (withdraw e this network token amount toAddress privateKey tr0)
          = tr1 @ [DateNow, SignTypedData signingKey dom val,
                   Http \<lparr> cfg_method = ''POST'',
                          cfg_url = asterBaseUrl this @ ''/api/v1/aster/user-withdraw'',
                          cfg_headers = [(''Content-Type'', ''application/x-www-form-urlencoded''),
                                         (''X-MBX-APIKEY'', asterApiKey this)],
                          cfg_data = Some (buildQueryString rp @ ''&signature=''
                                           @ hmac_sha256_hex e (asterApiSecret this) (buildQueryString rp)) \<rparr>]
          \<and> act_nonce val = date_now e tr1 * 1000
          \<and> obj_get rp ''timestamp'' = JNum (date_now e tr1)
          \<and> obj_get rp ''nonce'' = JStr (int_toString (date_now e tr1 * 1000))"
    by (intro exI [of _ dom] exI [of _ val] exI [of _ rp]) simp
qed

theorem signed_request_timestamp_witness:
  "truthy (obj_get (opt_params (demo_options \<lparr> opt_params := [(''timestamp'', JNum 1700000000123)] \<rparr>)) ''timestamp'')
   \<and> (\<exists>rp. snd (makeApiRequest demo_env (demo_options \<lparr> opt_params := [(''timestamp'', JNum 1700000000123)] \<rparr>) [])
             = [Http (request_config demo_env (demo_options \<lparr> opt_params := [(''timestamp'', JNum 1700000000123)] \<rparr>) rp)]
           \<and> obj_get rp ''timestamp'' = JNum 1700000000123)
   \<and> withdraw_quoted demo_env demo_api ''bnb'' ''ASTER'' (JStr ''7.5'') None [] ''0xKEY'' ''0xAbC1''
        (jstr ''0.25'') (snd (getWithdrawFee demo_env demo_api ''ASTER'' ''bnb'' []))
   \<and> (\<exists>dom val rp.
         snd (withdraw demo_env demo_api ''bnb'' ''ASTER'' (JStr ''7.5'') JNull None [])
         = snd (getWithdrawFee demo_env demo_api ''ASTER'' ''bnb'' [])
           @ [DateNow, SignTypedData ''0xKEY'' dom val,
              Http \<lparr> cfg_method = ''POST'',
                     cfg_url = asterBaseUrl demo_api @ ''/api/v1/aster/user-withdraw'',
                     cfg_headers = [(''Content-Type'', ''application/x-www-form-urlencoded''),
                                    (''X-MBX-APIKEY'', asterApiKey demo_api)],
                     cfg_data = Some (buildQueryString rp @ ''&signature=''
                                      @ hmac_sha256_hex demo_env (asterApiSecret demo_api) (buildQueryString rp)) \<rparr>]
         \<and> act_nonce val = 1700000000002000
         \<and> obj_get rp ''timestamp'' = JNum 1700000000002
         \<and> obj_get rp ''nonce'' = JStr ''1700000000002000'')"
proof -
  let ?O = "demo_options \<lparr> opt_params := [(''timestamp'', JNum 1700000000123)] \<rparr>"
  let ?tr1 = "snd (getWithdrawFee demo_env demo_api ''ASTER'' ''bnb'' [])"
  note T = signed_request_timestamp
             [where options = ?O and e = demo_env and tr = "[]" and this = demo_api
                and network = "''bnb''" and token = "''ASTER''" and amount = "JStr ''7.5''"
                and privateKey = None and ?tr0.0 = "[]" and signingKey = "''0xKEY''"
                and receiver = "''0xAbC1''" and fee = "jstr ''0.25''" and ?tr1.0 = ?tr1
                and toAddress = JNull and d = "''0xAbC1''" and nd = "''0xAbC1''"]
  have a: "opt_signed ?O \<and> opt_apiKey ?O \<noteq> [] \<and> opt_apiSecret ?O \<noteq> []"
    by (simp add: demo_options_def)
  have ts: "truthy (obj_get (opt_params ?O) ''timestamp'')"
    and tv: "obj_get (opt_params ?O) ''timestamp'' = JNum 1700000000123"
    by (simp_all add: demo_options_def obj_get_def)
  from T [THEN conjunct1, rule_format, OF a] ts tv
  have p1: "\<exists>rp. snd (makeApiRequest demo_env ?O []) = [Http (request_config demo_env ?O rp)]
                 \<and> obj_get rp ''timestamp'' = JNum 1700000000123"
    by auto
  have b: "withdraw_quoted demo_env demo_api ''bnb'' ''ASTER'' (JStr ''7.5'') None [] ''0xKEY'' ''0xAbC1''
             (jstr ''0.25'') ?tr1
           \<and> asterApiKey demo_api \<noteq> [] \<and> asterApiSecret demo_api \<noteq> []
           \<and> js_or JNull (JStr ''0xAbC1'') = JStr ''0xAbC1''
           \<and> getAddress demo_env (toLowerCase ''0xAbC1'') = Inr ''0xAbC1''
           \<and> (\<forall>dom val. \<exists>sig. signTypedData demo_env ''0xKEY'' dom val = Inr sig)
           \<and> date_now demo_env ?tr1 \<noteq> 0 \<and> \<bar>date_now demo_env ?tr1 * 1000\<bar> \<le> 2 ^ 53"
  proof -
    have "asterApiKey demo_api \<noteq> [] \<and> asterApiSecret demo_api \<noteq> []"
      by (simp add: demo_api_def)
    with demo_withdraw_quoted demo_getAddress demo_signs show ?thesis
      by (simp add: demo_clock_after_quote js_or_def)
  qed
  have i: "int_toString 1700000000002000 = ''1700000000002000''"
    by code_simp
  from T [THEN conjunct2, rule_format, OF b]
  have p2: "\<exists>dom val rp.
         snd (withdraw demo_env demo_api ''bnb'' ''ASTER'' (JStr ''7.5'') JNull None [])
         = ?tr1
           @ [DateNow, SignTypedData ''0xKEY'' dom val,
              Http \<lparr> cfg_method = ''POST'',
                     cfg_url = asterBaseUrl demo_api @ ''/api/v1/aster/user-withdraw'',
                     cfg_headers = [(''Content-Type'', ''application/x-www-form-urlencoded''),
                                    (''X-MBX-APIKEY'', asterApiKey demo_api)],
                     cfg_data = Some (buildQueryString rp @ ''&signature=''
                                      @ hmac_sha256_hex demo_env (asterApiSecret demo_api) (buildQueryString rp)) \<rparr>]
         \<and> act_nonce val = 1700000000002000
         \<and> obj_get rp ''timestamp'' = JNum 1700000000002
         \<and> obj_get rp ''nonce'' = JStr ''1700000000002000''"
    by (simp add: demo_clock_after_quote i)
  from ts p1 demo_withdraw_quoted p2 show ?thesis
    by blast
qed

text \<open>
  The claim as written fails: a caller's timestamp that is present and falsy is
  overwritten. Here the caller supplies \<open>timestamp: 0\<close> and the request is signed and
  sent with the reading of the clock.
\<close>

theorem timestamp_zero_overwritten:
  "obj_get (opt_params (demo_options \<lparr> opt_params := [(''timestamp'', JNum 0)] \<rparr>)) ''timestamp'' = JNum 0
   \<and> snd (makeApiRequest demo_env (demo_options \<lparr> opt_params := [(''timestamp'', JNum 0)] \<rparr>) [])
     = [DateNow,
        Http \<lparr> cfg_method = ''GET'',
               cfg_url = ''https://sapi.asterdex.com/api/v1/account?recvWindow=5000&timestamp=1700000000000&signature=sig39'',
               cfg_headers = [(''X-MBX-APIKEY'', ''key'')],
               cfg_data = None \<rparr>]"
  by code_simp

text \<open>
  Claim C10. When a withdrawal is called without a destination address (\<open>null\<close>, or any
  falsy value) and reaches the signature, the destination of the typed data that is
  signed is the address of the resolved signing key (ethers gives that address in
  checksum form, which normalisation leaves unchanged), and the parameters submitted to
  the exchange carry that address as \<open>receiver\<close>: their keys are \<open>chainId\<close>, \<open>asset\<close>,
  \<open>amount\<close>, \<open>fee\<close>, \<open>receiver\<close>, \<open>nonce\<close>, \<open>userSignature\<close>, \<open>timestamp\<close> and
  \<open>recvWindow\<close>, and \<open>destination\<close> is not among them.
\<close>

theorem withdraw_default_destination:
  assumes q: "withdraw_quoted e this network token amount privateKey tr signingKey receiver fee tr1"
      and no: "\<not> truthy toAddress"
      and creds: "asterApiKey this \<noteq> []" "asterApiSecret this \<noteq> []"
      and norm: "getAddress e (toLowerCase receiver) = Inr receiver"
      and sg: "\<forall>dom val. \<exists>sig. signTypedData e signingKey dom val = Inr sig"
  shows "\<exists>dom val rp pre.
           snd (withdraw e this network token amount toAddress privateKey tr)
           = tr1 @ [DateNow, SignTypedData signingKey dom val] @ pre
               @ [Http \<lparr> cfg_method = ''POST'',
                          cfg_url = asterBaseUrl this @ ''/api/v1/aster/user-withdraw'',
                          cfg_headers = [(''Content-Type'', ''application/x-www-form-urlencoded''),
                                         (''X-MBX-APIKEY'', asterApiKey this)],
                          cfg_data = Some (buildQueryString rp @ ''&signature=''
                                           @ hmac_sha256_hex e (asterApiSecret this) (buildQueryString rp)) \<rparr>]
         \<and> (pre = [] \<or> pre = [DateNow])
         \<and> Wallet_address e signingKey = Inr receiver
         \<and> act_destination val = receiver
         \<and> obj_get rp ''receiver'' = JStr receiver
         \<and> Object_keys rp = [''chainId'', ''asset'', ''amount'', ''fee'', ''receiver'', ''nonce'',
                               ''userSignature'', ''timestamp'', ''recvWindow'']
         \<and> ''destination'' \<notin> set (Object_keys rp)"
proof -
  from q have w: "Wallet_address e signingKey = Inr receiver"
    by (simp add: withdraw_quoted_def)
  from no have d: "js_or toAddress (JStr receiver) = JStr receiver"
    by (simp add: js_or_def)
  then have d': "js_or (js_or toAddress (JStr receiver)) (JStr receiver) = JStr receiver"
    by (simp add: js_or_def)
  from withdraw_submit_trace
         [where destination = "js_or toAddress (JStr receiver)" and network = network
            and chainId = "chainId_of (toLowerCase network)" and tokenUpper = "toUpperCase token"
            and amount = amount and fee = fee and tr = tr1, OF creds w d' norm sg]
  obtain dom val rp pre where
    s: "snd (withdraw_submit e this network (chainId_of (toLowerCase network)) (toUpperCase token)
               amount signingKey receiver (js_or toAddress (JStr receiver)) fee tr1)
        = tr1 @ [DateNow, SignTypedData signingKey dom val] @ pre
            @ [Http \<lparr> cfg_method = ''POST'',
                       cfg_url = asterBaseUrl this @ ''/api/v1/aster/user-withdraw'',
                       cfg_headers = [(''Content-Type'', ''application/x-www-form-urlencoded''),
                                      (''X-MBX-APIKEY'', asterApiKey this)],
                       cfg_data = Some (buildQueryString rp @ ''&signature=''
                                        @ hmac_sha256_hex e (asterApiSecret this) (buildQueryString rp)) \<rparr>]"
    and p: "date_now e tr1 \<noteq> 0 \<longrightarrow> pre = [] \<and> obj_get rp ''timestamp'' = JNum (date_now e tr1)"
           "date_now e tr1 = 0 \<longrightarrow> pre = [DateNow]"
    and v: "act_destination val = receiver"
    and k: "Object_keys rp = [''chainId'', ''asset'', ''amount'', ''fee'', ''receiver'', ''nonce'',
                               ''userSignature'', ''timestamp'', ''recvWindow'']"
    and r: "obj_get rp ''receiver'' = JStr receiver"
    by blast
  have eq: "snd (withdraw e this network token amount toAddress privateKey tr)
        = snd (withdraw_submit e this network (chainId_of (toLowerCase network)) (toUpperCase token)
                 amount signingKey receiver (js_or toAddress (JStr receiver)) fee tr1)"
    by (simp add: withdraw_to_submit [OF q] catching_def)
  from p have pre: "pre = [] \<or> pre = [DateNow]"
    by blast
  have nk: "''destination'' \<notin> set (Object_keys rp)"
    by (simp add: k)
  from eq s pre w v r k nk show ?thesis
    by (intro exI [of _ dom] exI [of _ val] exI [of _ rp] exI [of _ pre]) simp
qed

theorem withdraw_default_destination_witness:
  "withdraw_quoted demo_env demo_api ''bnb'' ''ASTER'' (JStr ''7.5'') None [] ''0xKEY'' ''0xAbC1''
     (jstr ''0.25'') (snd (getWithdrawFee demo_env demo_api ''ASTER'' ''bnb'' []))
   \<and> \<not> truthy JNull
   \<and> getAddress demo_env (toLowerCase ''0xAbC1'') = Inr ''0xAbC1''
   \<and> (\<exists>dom val rp pre.
         snd (withdraw demo_env demo_api ''bnb'' ''ASTER'' (JStr ''7.5'') JNull None [])
         = snd (getWithdrawFee demo_env demo_api ''ASTER'' ''bnb'' [])
           @ [DateNow, SignTypedData ''0xKEY'' dom val] @ pre
           @ [Http \<lparr> cfg_method = ''POST'',
                      cfg_url = asterBaseUrl demo_api @ ''/api/v1/aster/user-withdraw'',
                      cfg_headers = [(''Content-Type'', ''application/x-www-form-urlencoded''),
                                     (''X-MBX-APIKEY'', asterApiKey demo_api)],
                      cfg_data = Some (buildQueryString rp @ ''&signature=''
                                       @ hmac_sha256_hex demo_env (asterApiSecret demo_api)
                                           (buildQueryString rp)) \<rparr>]
         \<and> act_destination val = ''0xAbC1''
         \<and> obj_get rp ''receiver'' = JStr ''0xAbC1''
         \<and> ''destination'' \<notin> set (Object_keys rp))"
proof -
  have n: "\<not> truthy JNull"
    by simp
  have c: "asterApiKey demo_api \<noteq> []" "asterApiSecret demo_api \<noteq> []"
    by (simp_all add: demo_api_def)
  from withdraw_default_destination [OF demo_withdraw_quoted n c demo_getAddress demo_signs]
  have "\<exists>dom val rp pre.
         snd (withdraw demo_env demo_api ''bnb'' ''ASTER'' (JStr ''7.5'') JNull None [])
         = snd (getWithdrawFee demo_env demo_api ''ASTER'' ''bnb'' [])
           @ [DateNow, SignTypedData ''0xKEY'' dom val] @ pre
           @ [Http \<lparr> cfg_method = ''POST'',
                      cfg_url = asterBaseUrl demo_api @ ''/api/v1/aster/user-withdraw'',
                      cfg_headers = [(''Content-Type'', ''application/x-www-form-urlencoded''),
                                     (''X-MBX-APIKEY'', asterApiKey demo_api)],
                      cfg_data = Some (buildQueryString rp @ ''&signature=''
                                       @ hmac_sha256_hex demo_env (asterApiSecret demo_api)
                                           (buildQueryString rp)) \<rparr>]
         \<and> act_destination val = ''0xAbC1''
         \<and> obj_get rp ''receiver'' = JStr ''0xAbC1''
         \<and> ''destination'' \<notin> set (Object_keys rp)"
    by blast
  with demo_withdraw_quoted n demo_getAddress show ?thesis
    by blast
qed

section \<open>Validation of amounts\<close>

lemma parseFloat_examples:
  "parseFloat ''0'' = Fin 0" "parseFloat ''-5'' = Fin (- 5)" "parseFloat ''abc'' = NaN"
  "parseFloat ''1.5'' = Fin (3 / 2)" "parseFloat ''100'' = Fin 100" "parseFloat ''0.5'' = Fin (1 / 2)"
  by code_simp+

lemma validateAmount_cases:
  "validateAmount amount fieldName = Inr True \<or>
   validateAmount amount fieldName = Inl (Error (fieldName @ '' must be a positive number''))"
  by (simp add: validateAmount_def Let_def)

lemma deposit_invalid_amount:
  assumes "validateAmount amount ''amount'' = Inl err"
  shows "snd (deposit e network token amount privateKey tr) = tr"
    and "\<not> json_truthy (field (fst (deposit e network token amount privateKey tr)) ''success'')"
    and "validateNetwork network None = Inr True \<Longrightarrow>
         deposit e network token amount privateKey tr = (handleError err, tr)"
  using assms
  by (auto simp add: deposit_def deposit_body_def catching_def handleError_def field_def
      split: sum.splits)

lemma withdraw_invalid_amount:
  assumes "validateAmount amount ''amount'' = Inl err"
  shows "snd (withdraw e this network token amount toAddress privateKey tr) = tr"
    and "\<not> json_truthy (field (fst (withdraw e this network token amount toAddress privateKey tr)) ''success'')"
    and "validateNetwork network (Some [''ethereum'', ''arbitrum'', ''bnb'']) = Inr True \<Longrightarrow>
         withdraw e this network token amount toAddress privateKey tr = (handleError err, tr)"
  using assms
  by (auto simp add: withdraw_def withdraw_body_def catching_def handleError_def field_def
      split: sum.splits)

text \<open>
  What the validation does. It reads the number an amount string begins with
  (\<open>parseFloat\<close>: leading white space, a sign, digits with a fraction and an exponent,
  whatever follows being ignored), rejects the strings that begin with no number and
  those whose number is not positive, and accepts the others: \<open>"0"\<close>, \<open>"-5"\<close> and
  \<open>"abc"\<close> are rejected, \<open>"1.5"\<close> and \<open>"100"\<close> are accepted. In \<open>deposit\<close> and in
  \<open>withdraw\<close> a rejected amount ends the call with a failure and an unchanged trace: no
  HTTP request, no call and no transaction on any chain (with a valid network the failure
  is the validation error itself).
\<close>

lemma amount_validation_before_io:
  "validateAmount (JStr ''0'') fieldName = Inl (Error (fieldName @ '' must be a positive number''))
   \<and> validateAmount (JStr ''-5'') fieldName = Inl (Error (fieldName @ '' must be a positive number''))
   \<and> validateAmount (JStr ''abc'') fieldName = Inl (Error (fieldName @ '' must be a positive number''))
   \<and> validateAmount (JStr ''1.5'') fieldName = Inr True
   \<and> validateAmount (JStr ''100'') fieldName = Inr True
   \<and> (validateAmount amount fieldName = Inr True
        \<longleftrightarrow> (case numAmount_of amount of Fin x \<Rightarrow> 0 < x | PosInf \<Rightarrow> True | _ \<Rightarrow> False))
   \<and> (validateAmount amount ''amount'' = Inl err \<longrightarrow>
        snd (deposit e network token amount privateKey tr) = tr
        \<and> \<not> json_truthy (field (fst (deposit e network token amount privateKey tr)) ''success'')
        \<and> (validateNetwork network None = Inr True \<longrightarrow>
             deposit e network token amount privateKey tr = (handleError err, tr))
        \<and> snd (withdraw e this network token amount toAddress privateKey tr) = tr
        \<and> \<not> json_truthy (field (fst (withdraw e this network token amount toAddress privateKey tr))
                              ''success'')
        \<and> (validateNetwork network (Some [''ethereum'', ''arbitrum'', ''bnb'']) = Inr True \<longrightarrow>
             withdraw e this network token amount toAddress privateKey tr = (handleError err, tr)))"
proof -
  have ex: "validateAmount (JStr ''0'') fieldName = Inl (Error (fieldName @ '' must be a positive number''))"
    "validateAmount (JStr ''-5'') fieldName = Inl (Error (fieldName @ '' must be a positive number''))"
    "validateAmount (JStr ''abc'') fieldName = Inl (Error (fieldName @ '' must be a positive number''))"
    "validateAmount (JStr ''1.5'') fieldName = Inr True"
    "validateAmount (JStr ''100'') fieldName = Inr True"
    by (simp_all add: validateAmount_def parseFloat_examples)
  have ch: "validateAmount amount fieldName = Inr True
        \<longleftrightarrow> (case numAmount_of amount of Fin x \<Rightarrow> 0 < x | PosInf \<Rightarrow> True | _ \<Rightarrow> False)"
    by (cases "numAmount_of amount") (auto simp add: validateAmount_def)
  show ?thesis
    by (intro conjI impI) (simp_all add: ex ch deposit_invalid_amount withdraw_invalid_amount)
qed

lemma amount_validation_before_io_example:
  "validateAmount (JStr ''abc'') ''amount'' = Inl (Error ''amount must be a positive number'')
   \<and> validateNetwork ''bnb'' None = Inr True
   \<and> validateNetwork ''bnb'' (Some [''ethereum'', ''arbitrum'', ''bnb'']) = Inr True
   \<and> deposit demo_env ''bnb'' ''USDT'' (JStr ''abc'') None []
       = (handleError (Error ''amount must be a positive number''), [])
   \<and> withdraw demo_env demo_api ''bnb'' ''USDT'' (JStr ''abc'') JNull None []
       = (handleError (Error ''amount must be a positive number''), [])"
proof -
  have v: "validateAmount (JStr ''abc'') ''amount'' = Inl (Error ''amount must be a positive number'')"
    by (simp add: validateAmount_def parseFloat_examples)
  have n: "validateNetwork ''bnb'' None = Inr True"
          "validateNetwork ''bnb'' (Some [''ethereum'', ''arbitrum'', ''bnb'']) = Inr True"
    by code_simp+
  from amount_validation_before_io
         [where fieldName = "''amount''" and amount = "JStr ''abc''"
            and err = "Error ''amount must be a positive number''" and e = demo_env
            and network = "''bnb''" and token = "''USDT''" and privateKey = None and tr = "[]"
            and this = demo_api and toAddress = JNull]
       v n
  show ?thesis
    by simp
qed

text \<open>
  Claim C8. Amount validation is to reject the amount strings that are not numbers, before
  any network I/O. The code at \<open>"12abc"\<close>, a string that is not a number and begins
  with one: the validation accepts it, and a withdrawal of that amount succeeds in the
  example world after two network requests, the fee quote and the submission.
\<close>

theorem lenient_amount_accepted:
  "validateAmount (JStr ''12abc'') ''amount'' = Inr True
   \<and> json_truthy (field (fst (withdraw demo_env demo_api ''bnb'' ''ASTER'' (JStr ''12abc'') JNull None []))
                     ''success'')
   \<and> length (filter is_network_io
               (snd (withdraw demo_env demo_api ''bnb'' ''ASTER'' (JStr ''12abc'') JNull None []))) = 2"
  by code_simp

section \<open>The minimum withdrawal of a stablecoin\<close>

text \<open>
  What the floor check does. It runs on a supported network after the amount validation,
  for a token whose upper-cased name is one of USDT, USDC, BUSD, DAI and TUSD, and it
  compares with 1 the double that \<open>parseFloat\<close> reads from the amount. When that double is
  below 1 the withdrawal ends before any fee quote or signature, with an unchanged trace:
  with the minimum-amount error when the amount has passed the validation, with the
  validation's own error otherwise. For a token outside the set, the amount \<open>"0.5"\<close> goes
  on to the resolution of the key, the fee quote and the signature.
\<close>

lemma stablecoin_withdrawal_floor:
  assumes net: "validateNetwork network (Some [''ethereum'', ''arbitrum'', ''bnb'']) = Inr True"
      and asc: "is_ascii token"
  shows "(toUpperCase token \<in> set stablecoins \<and> num_lt (parseFloat (js_String amount)) (Fin 1) \<longrightarrow>
            snd (withdraw e this network token amount toAddress privateKey tr) = tr
            \<and> \<not> json_truthy (field (fst (withdraw e this network token amount toAddress privateKey tr))
                                  ''success'')
            \<and> (validateAmount amount ''amount'' = Inr True \<longrightarrow>
                  withdraw e this network token amount toAddress privateKey tr
                  = (failure (jstr (minimum_amount_error (toUpperCase token) amount)), tr)))
       \<and> (toUpperCase token \<notin> set stablecoins \<longrightarrow>
            withdraw e this network token (JStr ''0.5'') toAddress privateKey tr
            = catching (withdraw_signed e this network token (JStr ''0.5'') toAddress privateKey tr))"
proof -
  have v: "validateAmount (JStr ''0.5'') ''amount'' = Inr True"
    by (simp add: validateAmount_def parseFloat_examples)
  have a: "toUpperCase token \<in> set stablecoins \<and> num_lt (parseFloat (js_String amount)) (Fin 1) \<longrightarrow>
            snd (withdraw e this network token amount toAddress privateKey tr) = tr
            \<and> \<not> json_truthy (field (fst (withdraw e this network token amount toAddress privateKey tr))
                                  ''success'')
            \<and> (validateAmount amount ''amount'' = Inr True \<longrightarrow>
                  withdraw e this network token amount toAddress privateKey tr
                  = (failure (jstr (minimum_amount_error (toUpperCase token) amount)), tr))"
    using net validateAmount_cases [of amount "''amount''"]
    by (auto simp add: withdraw_def withdraw_body_def catching_def handleError_not_success
          failure_not_success Let_def)
  have b: "toUpperCase token \<notin> set stablecoins \<longrightarrow>
            withdraw e this network token (JStr ''0.5'') toAddress privateKey tr
            = catching (withdraw_signed e this network token (JStr ''0.5'') toAddress privateKey tr)"
    using net v by (simp add: withdraw_def withdraw_body_def Let_def)
  from a b show ?thesis ..
qed

lemma stablecoin_withdrawal_floor_example:
  "validateNetwork ''bnb'' (Some [''ethereum'', ''arbitrum'', ''bnb'']) = Inr True
   \<and> is_ascii ''usdt'' \<and> is_ascii ''ASTER''
   \<and> toUpperCase ''usdt'' \<in> set stablecoins
   \<and> num_lt (parseFloat (js_String (JStr ''0.5''))) (Fin 1)
   \<and> validateAmount (JStr ''0.5'') ''amount'' = Inr True
   \<and> withdraw demo_env demo_api ''bnb'' ''usdt'' (JStr ''0.5'') JNull None []
       = (failure (jstr (minimum_amount_error ''USDT'' (JStr ''0.5''))), [])
   \<and> toUpperCase ''ASTER'' \<notin> set stablecoins
   \<and> withdraw demo_env demo_api ''bnb'' ''ASTER'' (JStr ''0.5'') JNull None []
       = catching (withdraw_signed demo_env demo_api ''bnb'' ''ASTER'' (JStr ''0.5'') JNull None [])
   \<and> json_truthy (field (fst (withdraw demo_env demo_api ''bnb'' ''ASTER'' (JStr ''0.5'') JNull None []))
                     ''success'')"
proof -
  have n: "validateNetwork ''bnb'' (Some [''ethereum'', ''arbitrum'', ''bnb'']) = Inr True"
    by code_simp
  have u: "toUpperCase ''usdt'' = ''USDT''" "toUpperCase ''ASTER'' = ''ASTER''"
    by code_simp+
  have a: "is_ascii ''usdt''" "is_ascii ''ASTER''"
    by code_simp+
  have s: "''USDT'' \<in> set stablecoins" "''ASTER'' \<notin> set stablecoins"
    by (simp_all add: stablecoins_def)
  have l: "num_lt (parseFloat (js_String (JStr ''0.5''))) (Fin 1)"
    by (simp add: parseFloat_examples)
  have v: "validateAmount (JStr ''0.5'') ''amount'' = Inr True"
    by (simp add: validateAmount_def parseFloat_examples)
  have ok: "json_truthy (field (fst (withdraw demo_env demo_api ''bnb'' ''ASTER'' (JStr ''0.5'') JNull None []))
                     ''success'')"
    by code_simp
  from stablecoin_withdrawal_floor
         [OF n a(1), where amount = "JStr ''0.5''" and e = demo_env
            and this = demo_api and toAddress = JNull and privateKey = None and tr = "[]"]
       u s l v
  have p1: "withdraw demo_env demo_api ''bnb'' ''usdt'' (JStr ''0.5'') JNull None []
       = (failure (jstr (minimum_amount_error ''USDT'' (JStr ''0.5''))), [])"
    by simp
  from stablecoin_withdrawal_floor
         [OF n a(2), where amount = "JStr ''0.5''" and e = demo_env
            and this = demo_api and toAddress = JNull and privateKey = None and tr = "[]"]
       u s
  have p2: "withdraw demo_env demo_api ''bnb'' ''ASTER'' (JStr ''0.5'') JNull None []
       = catching (withdraw_signed demo_env demo_api ''bnb'' ''ASTER'' (JStr ''0.5'') JNull None [])"
    by simp
  from n a u s l v p1 p2 ok show ?thesis
    by simp
qed

text \<open>
  An amount below 1 that is not positive is stopped by the amount validation, which runs
  first: the error is the validation's.
\<close>

lemma nonpositive_stablecoin_rejected:
  "toUpperCase ''USDT'' \<in> set stablecoins
   \<and> num_lt (parseFloat ''0'') (Fin 1)
   \<and> withdraw demo_env demo_api ''bnb'' ''USDT'' (JStr ''0'') JNull None []
       = (Obj [(''success'', jbool False), (''isError'', jbool True),
               (''error'', jstr ''amount must be a positive number'')], [])"
  by code_simp

text \<open>
  Claim C7. A withdrawal of a stablecoin whose amount is strictly less than 1 is to be
  rejected with the minimum-amount error before any fee quote or signature. The code at
  the amount \<open>"0.9999999999999999999"\<close> of USDT, which is less than 1: the nearest double
  is 1, the comparison \<open>numAmount < 1\<close> is false, and the withdrawal succeeds in the example
  world after the fee quote (the GET request), the signature of the typed data for that
  amount, and the submission (the POST request).
\<close>

theorem stablecoin_floor_rounding:
  "toUpperCase ''USDT'' \<in> set stablecoins
   \<and> parseFloat ''0.9999999999999999999'' = Fin 1
   \<and> json_truthy
        (field (fst (withdraw demo_env demo_api ''bnb'' ''USDT'' (JStr ''0.9999999999999999999'') JNull None []))
           ''success'')
   \<and> http_methods
        (snd (withdraw demo_env demo_api ''bnb'' ''USDT'' (JStr ''0.9999999999999999999'') JNull None []))
       = [''GET'', ''POST'']
   \<and> signed_amounts
        (snd (withdraw demo_env demo_api ''bnb'' ''USDT'' (JStr ''0.9999999999999999999'') JNull None []))
       = [''0.9999999999999999999'']"
  by code_simp
section \<open>The ERC20 deposit\<close>

lemma snd_catching: "snd (catching r) = snd r"
  by (simp add: catching_def)

lemma deposit_erc20_deposit_events:
  "\<exists>ws. snd (deposit_erc20_deposit e network token amount dc rpcUrl w tok amountBN tr)
           = tr @ EthSend rpcUrl w (Deposit (dc_address dc) tok amountBN 1000) # ws
         \<and> filter is_transaction ws = []"
  by (simp add: deposit_erc20_deposit_def Let_def split: sum.splits)

lemma deposit_reaches_erc20:
  assumes "erc20_deposit_ready e network token amount privateKey tr rpcUrl w dc tok amountBN allowance"
  shows "snd (deposit e network token amount privateKey tr)
         = (let tr2 = tr @ [EthCall rpcUrl (Decimals tok), EthCall rpcUrl (Allowance tok w (dc_address dc))]
            in if allowance < amountBN
               then (let approve = Approve tok (dc_address dc) amountBN 100000;
                         tr3 = tr2 @ [EthSend rpcUrl w approve]
                     in case eth_send e tr2 rpcUrl w approve of
                          Inl err \<Rightarrow> tr3
                        | Inr approveHash \<Rightarrow>
                            (let tr4 = tr3 @ [EthWait rpcUrl approveHash (Some 300000)]
                             in case eth_wait e tr3 rpcUrl approveHash (Some 300000) of
                                  Inl err \<Rightarrow> tr4
                                | Inr _ \<Rightarrow>
                                    snd (deposit_erc20_deposit e network token amount dc rpcUrl w tok
                                           amountBN tr4)))
               else snd (deposit_erc20_deposit e network token amount dc rpcUrl w tok amountBN tr2))"
  using assms
  by (auto simp add: erc20_deposit_ready_def deposit_def snd_catching deposit_body_def
        deposit_erc20_def Let_def
      split: option.splits sum.splits)

lemma demo_erc20_ready:
  "erc20_deposit_ready demo_env ''bnb'' ''USDT'' (JStr ''2'') None [] ''https://bsc.example'' ''0xAbC1''
     \<lparr> dc_address = ''0x128463a60784c4d3f46c23af3f65ed859ba87974'', dc_chainId = Some 56,
       dc_treasuryAccount = None, dc_networkName = ''BNB Chain'',
       dc_explorerUrl = ''https://bscscan.com/tx/'' \<rparr>
     ''0x55d398326f99059fF775485246999027B3197955'' 2000000000000000000 0"
  by code_simp

lemma demo_erc20_ready_allowance:
  "erc20_deposit_ready demo_env_allowance ''bnb'' ''USDT'' (JStr ''2'') None [] ''https://bsc.example''
     ''0xAbC1''
     \<lparr> dc_address = ''0x128463a60784c4d3f46c23af3f65ed859ba87974'', dc_chainId = Some 56,
       dc_treasuryAccount = None, dc_networkName = ''BNB Chain'',
       dc_explorerUrl = ''https://bscscan.com/tx/'' \<rparr>
     ''0x55d398326f99059fF775485246999027B3197955'' 2000000000000000000 5000000000000000000"
  by code_simp

text \<open>
  Claim C6. In the ERC20 deposit, once the allowance has been read: if it is at least the
  required amount in base units, no approval is submitted and the only transaction is the
  deposit call for that amount with the broker tag 1000; if it is strictly less, the
  first transaction is an approval for exactly the required amount, followed by nothing
  (the approval failed or was not confirmed) or by the deposit call, and by the deposit
  call whenever the approval is sent and confirmed.
\<close>

theorem erc20_deposit_approval:
  assumes "erc20_deposit_ready e network token amount privateKey tr rpcUrl w dc tok amountBN allowance"
  shows "(amountBN \<le> allowance \<longrightarrow>
            filter is_transaction (drop (length tr) (snd (deposit e network token amount privateKey tr)))
            = [EthSend rpcUrl w (Deposit (dc_address dc) tok amountBN 1000)])
       \<and> (allowance < amountBN \<longrightarrow>
            (\<exists>rest.
               filter is_transaction (drop (length tr) (snd (deposit e network token amount privateKey tr)))
               = EthSend rpcUrl w (Approve tok (dc_address dc) amountBN 100000) # rest
               \<and> (rest = [] \<or> rest = [EthSend rpcUrl w (Deposit (dc_address dc) tok amountBN 1000)])))
       \<and> (allowance < amountBN
            \<and> eth_send e (tr @ [EthCall rpcUrl (Decimals tok),
                                EthCall rpcUrl (Allowance tok w (dc_address dc))])
                 rpcUrl w (Approve tok (dc_address dc) amountBN 100000) = Inr approveHash
            \<and> eth_wait e (tr @ [EthCall rpcUrl (Decimals tok),
                                EthCall rpcUrl (Allowance tok w (dc_address dc)),
                                EthSend rpcUrl w (Approve tok (dc_address dc) amountBN 100000)])
                 rpcUrl approveHash (Some 300000) = Inr block \<longrightarrow>
            filter is_transaction (drop (length tr) (snd (deposit e network token amount privateKey tr)))
            = [EthSend rpcUrl w (Approve tok (dc_address dc) amountBN 100000),
               EthSend rpcUrl w (Deposit (dc_address dc) tok amountBN 1000)])"
proof -
  let ?tr2 = "tr @ [EthCall rpcUrl (Decimals tok), EthCall rpcUrl (Allowance tok w (dc_address dc))]"
  let ?ap = "Approve tok (dc_address dc) amountBN 100000"
  let ?dp = "EthSend rpcUrl w (Deposit (dc_address dc) tok amountBN 1000)"
  let ?txs = "filter is_transaction (drop (length tr) (snd (deposit e network token amount privateKey tr)))"
  note R = deposit_reaches_erc20 [OF assms]
  have dep: "\<exists>ws. snd (deposit_erc20_deposit e network token amount dc rpcUrl w tok amountBN t)
                   = t @ ?dp # ws \<and> filter is_transaction ws = []" for t
    by (rule deposit_erc20_deposit_events)
  have c1: "amountBN \<le> allowance \<longrightarrow> ?txs = [?dp]"
  proof
    assume le: "amountBN \<le> allowance"
    obtain ws where ws: "snd (deposit_erc20_deposit e network token amount dc rpcUrl w tok amountBN ?tr2)
                         = ?tr2 @ ?dp # ws" "filter is_transaction ws = []"
      using dep [of ?tr2] by blast
    from le R have "snd (deposit e network token amount privateKey tr)
                    = snd (deposit_erc20_deposit e network token amount dc rpcUrl w tok amountBN ?tr2)"
      by (simp add: Let_def)
    with ws show "?txs = [?dp]"
      by simp
  qed
  have c3: "?txs = [EthSend rpcUrl w ?ap, ?dp]"
    if lt: "allowance < amountBN"
      and s: "eth_send e ?tr2 rpcUrl w ?ap = Inr h"
      and wt: "eth_wait e (?tr2 @ [EthSend rpcUrl w ?ap]) rpcUrl h (Some 300000) = Inr b" for h b
  proof -
    let ?tr4 = "?tr2 @ [EthSend rpcUrl w ?ap] @ [EthWait rpcUrl h (Some 300000)]"
    obtain ws where ws: "snd (deposit_erc20_deposit e network token amount dc rpcUrl w tok amountBN ?tr4)
                         = ?tr4 @ ?dp # ws" "filter is_transaction ws = []"
      using dep [of ?tr4] by blast
    from lt s wt R have "snd (deposit e network token amount privateKey tr)
                    = snd (deposit_erc20_deposit e network token amount dc rpcUrl w tok amountBN ?tr4)"
      by (simp add: Let_def)
    with ws show ?thesis
      by simp
  qed
  have c2: "allowance < amountBN \<longrightarrow>
            (\<exists>rest. ?txs = EthSend rpcUrl w ?ap # rest \<and> (rest = [] \<or> rest = [?dp]))"
  proof
    assume lt: "allowance < amountBN"
    show "\<exists>rest. ?txs = EthSend rpcUrl w ?ap # rest \<and> (rest = [] \<or> rest = [?dp])"
    proof (cases "eth_send e ?tr2 rpcUrl w ?ap")
      case (Inl err)
      with lt R have "?txs = [EthSend rpcUrl w ?ap]"
        by (simp add: Let_def)
      then show ?thesis by simp
    next
      case (Inr h)
      show ?thesis
      proof (cases "eth_wait e (?tr2 @ [EthSend rpcUrl w ?ap]) rpcUrl h (Some 300000)")
        case (Inl err)
        with lt \<open>eth_send e ?tr2 rpcUrl w ?ap = Inr h\<close> R have "?txs = [EthSend rpcUrl w ?ap]"
          by (simp add: Let_def)
        then show ?thesis by simp
      next
        case (Inr b)
        from c3 [OF lt \<open>eth_send e ?tr2 rpcUrl w ?ap = Inr h\<close> Inr] show ?thesis
          by simp
      qed
    qed
  qed
  have c3': "allowance < amountBN
            \<and> eth_send e (tr @ [EthCall rpcUrl (Decimals tok),
                                EthCall rpcUrl (Allowance tok w (dc_address dc))])
                 rpcUrl w (Approve tok (dc_address dc) amountBN 100000) = Inr approveHash
            \<and> eth_wait e (tr @ [EthCall rpcUrl (Decimals tok),
                                EthCall rpcUrl (Allowance tok w (dc_address dc)),
                                EthSend rpcUrl w (Approve tok (dc_address dc) amountBN 100000)])
                 rpcUrl approveHash (Some 300000) = Inr block \<longrightarrow>
            ?txs = [EthSend rpcUrl w ?ap, ?dp]"
    using c3 [of approveHash block] by simp
  from c1 c2 c3' show ?thesis
    by blast
qed

theorem erc20_deposit_approval_witness:
  "filter is_transaction (snd (deposit demo_env_allowance ''bnb'' ''USDT'' (JStr ''2'') None []))
     = [EthSend ''https://bsc.example'' ''0xAbC1''
          (Deposit ''0x128463a60784c4d3f46c23af3f65ed859ba87974''
             ''0x55d398326f99059fF775485246999027B3197955'' 2000000000000000000 1000)]
   \<and> filter is_transaction (snd (deposit demo_env ''bnb'' ''USDT'' (JStr ''2'') None []))
     = [EthSend ''https://bsc.example'' ''0xAbC1''
          (Approve ''0x55d398326f99059fF775485246999027B3197955''
             ''0x128463a60784c4d3f46c23af3f65ed859ba87974'' 2000000000000000000 100000),
        EthSend ''https://bsc.example'' ''0xAbC1''
          (Deposit ''0x128463a60784c4d3f46c23af3f65ed859ba87974''
             ''0x55d398326f99059fF775485246999027B3197955'' 2000000000000000000 1000)]"
proof -
  from erc20_deposit_approval [OF demo_erc20_ready_allowance]
  have a: "filter is_transaction (snd (deposit demo_env_allowance ''bnb'' ''USDT'' (JStr ''2'') None []))
     = [EthSend ''https://bsc.example'' ''0xAbC1''
          (Deposit ''0x128463a60784c4d3f46c23af3f65ed859ba87974''
             ''0x55d398326f99059fF775485246999027B3197955'' 2000000000000000000 1000)]"
    by simp
  have s: "eth_send demo_env
             ([] @ [EthCall ''https://bsc.example'' (Decimals ''0x55d398326f99059fF775485246999027B3197955''),
                    EthCall ''https://bsc.example''
                      (Allowance ''0x55d398326f99059fF775485246999027B3197955'' ''0xAbC1''
                         ''0x128463a60784c4d3f46c23af3f65ed859ba87974'')])
             ''https://bsc.example'' ''0xAbC1''
             (Approve ''0x55d398326f99059fF775485246999027B3197955''
                ''0x128463a60784c4d3f46c23af3f65ed859ba87974'' 2000000000000000000 100000)
           = Inr ''0xTX2''"
    by code_simp
  have w: "eth_wait demo_env
             ([] @ [EthCall ''https://bsc.example'' (Decimals ''0x55d398326f99059fF775485246999027B3197955''),
                    EthCall ''https://bsc.example''
                      (Allowance ''0x55d398326f99059fF775485246999027B3197955'' ''0xAbC1''
                         ''0x128463a60784c4d3f46c23af3f65ed859ba87974''),
                    EthSend ''https://bsc.example'' ''0xAbC1''
                      (Approve ''0x55d398326f99059fF775485246999027B3197955''
                         ''0x128463a60784c4d3f46c23af3f65ed859ba87974'' 2000000000000000000 100000)])
             ''https://bsc.example'' ''0xTX2'' (Some 300000)
           = Inr 1000"
    by code_simp
  from erc20_deposit_approval [OF demo_erc20_ready, of "''0xTX2''" 1000] s w
  have b: "filter is_transaction (snd (deposit demo_env ''bnb'' ''USDT'' (JStr ''2'') None []))
     = [EthSend ''https://bsc.example'' ''0xAbC1''
          (Approve ''0x55d398326f99059fF775485246999027B3197955''
             ''0x128463a60784c4d3f46c23af3f65ed859ba87974'' 2000000000000000000 100000),
        EthSend ''https://bsc.example'' ''0xAbC1''
          (Deposit ''0x128463a60784c4d3f46c23af3f65ed859ba87974''
             ''0x55d398326f99059fF775485246999027B3197955'' 2000000000000000000 1000)]"
    by simp
  from a b show ?thesis ..
qed


end
